theory Spec2Isabelle
  imports Main "HOL-Library.Sublist"
begin

section \<open>Python values\<close>

text \<open>
  The program is one Python file, \<^verbatim>\<open>tools/list-settings.py\<close>. It fetches JSON
  documents from a Snipe-IT server and prints them as tables.

  A Python \<^verbatim>\<open>str\<close> is a sequence of code points, and \<^verbatim>\<open>len\<close> and slicing count
  code points; so a string is a list of code points, not of bytes. \<open>lit\<close> embeds an
  ASCII literal.
\<close>

type_synonym pystr = "nat list"

definition lit :: "string \<Rightarrow> pystr" where
  "lit s = map of_char s"

text \<open>
  What \<^verbatim>\<open>response.json()\<close> returns: \<^verbatim>\<open>None\<close>, a bool, an int, a float
  (mantissa and binary exponent; only its being zero matters here), a str, a list or a
  dict. A dict is an association list of its items, in the dict's order and with distinct
  keys, looked up with \<open>map_of\<close>.
\<close>

datatype json =
    JNull
  | JBool bool
  | JInt int
  | JFloat int int
  | JStr pystr
  | JArr "json list"
  | JObj "(pystr \<times> json) list"

text \<open>
  The exceptions that leave the program's functions: AttributeError and TypeError are
  raised by the program's own expressions on such values, NotRenderableError and
  MarkupError by the \<^verbatim>\<open>rich\<close> library when a table is filled and printed,
  RecursionError by \<^verbatim>\<open>response.json()\<close>.
\<close>

datatype exn = AttributeError | TypeError | NotRenderableError | MarkupError | RecursionError

definition bind_exn :: "exn + 'a \<Rightarrow> ('a \<Rightarrow> exn + 'b) \<Rightarrow> exn + 'b" where
  "bind_exn m f = (case m of Inl e \<Rightarrow> Inl e | Inr x \<Rightarrow> f x)"

text \<open>Truth value testing: \<^verbatim>\<open>if not data\<close>, \<^verbatim>\<open>if parent\<close>, \<^verbatim>\<open>if color\<close>.\<close>

fun truthy :: "json \<Rightarrow> bool" where
  "truthy JNull = False"
| "truthy (JBool b) = b"
| "truthy (JInt i) = (i \<noteq> 0)"
| "truthy (JFloat m e) = (m \<noteq> 0)"
| "truthy (JStr s) = (s \<noteq> [])"
| "truthy (JArr xs) = (xs \<noteq> [])"
| "truthy (JObj kvs) = (kvs \<noteq> [])"

text \<open>\<^verbatim>\<open>x.get(key, default)\<close>: only a dict has the method.\<close>

fun dict_get :: "json \<Rightarrow> pystr \<Rightarrow> json \<Rightarrow> exn + json" where
  "dict_get (JObj kvs) k d = Inr (case map_of kvs k of None \<Rightarrow> d | Some v \<Rightarrow> v)"
| "dict_get _ k d = Inl AttributeError"

text \<open>\<^verbatim>\<open>len(x)\<close>.\<close>

fun py_len :: "json \<Rightarrow> exn + nat" where
  "py_len (JStr s) = Inr (length s)"
| "py_len (JArr xs) = Inr (length xs)"
| "py_len (JObj kvs) = Inr (length kvs)"
| "py_len _ = Inl TypeError"

text \<open>
  \<^verbatim>\<open>x[:n]\<close>: a str and a list are sliced; None, a number and a bool are not
  subscriptable and a slice is no key of a dict (TypeError; from Python 3.12 on the dict
  raises KeyError instead).
\<close>

fun py_slice :: "json \<Rightarrow> nat \<Rightarrow> exn + json" where
  "py_slice (JStr s) n = Inr (JStr (take n s))"
| "py_slice (JArr xs) n = Inr (JArr (take n xs))"
| "py_slice _ n = Inl TypeError"

text \<open>
  The items a \<^verbatim>\<open>for\<close> loop (or \<^verbatim>\<open>join\<close>) takes from a value: the elements of a
  list, the one-character strings of a str, the keys of a dict.
\<close>

fun py_iter :: "json \<Rightarrow> exn + json list" where
  "py_iter (JArr xs) = Inr xs"
| "py_iter (JStr s) = Inr (map (\<lambda>ch. JStr [ch]) s)"
| "py_iter (JObj kvs) = Inr (map (\<lambda>kv. JStr (fst kv)) kvs)"
| "py_iter _ = Inl TypeError"

text \<open>\<^verbatim>\<open>x + "..."\<close> with a str on the right.\<close>

fun py_add_str :: "json \<Rightarrow> pystr \<Rightarrow> exn + json" where
  "py_add_str (JStr s) t = Inr (JStr (s @ t))"
| "py_add_str _ t = Inl TypeError"

text \<open>\<^verbatim>\<open>sep.join(items)\<close>: every item must be a str.\<close>

fun py_join :: "pystr \<Rightarrow> json list \<Rightarrow> exn + pystr" where
  "py_join sep [] = Inr []"
| "py_join sep [JStr s] = Inr s"
| "py_join sep (JStr s # x # xs) =
     bind_exn (py_join sep (x # xs)) (\<lambda>r. Inr (s @ sep @ r))"
| "py_join sep (_ # xs) = Inl TypeError"

text \<open>Decimal numerals: \<^verbatim>\<open>str\<close> of an int and an int in an f-string.\<close>

function str_nat :: "nat \<Rightarrow> pystr" where
  "str_nat n = (if n < 10 then [48 + n] else str_nat (n div 10) @ [48 + n mod 10])"
  by pat_completeness auto
termination
  by (relation "measure (\<lambda>n. n)") auto

declare str_nat.simps [simp del]

definition str_int :: "int \<Rightarrow> pystr" where
  "str_int i = (if i < 0 then 45 # str_nat (nat (- i)) else str_nat (nat i))"

text \<open>
  \<^verbatim>\<open>str(v)\<close> and \<^verbatim>\<open>{v}\<close> in an f-string. The characters are computed for None, a
  bool, an int and a str. Those of a float, a list or a dict come from Python's
  \<^verbatim>\<open>repr\<close>; they are kept as the fragment \<open>StrOf v\<close>. Such text only ever goes
  to the table, never back into the program.
\<close>

datatype frag = Chars pystr | StrOf json

type_synonym pytext = "frag list"

fun py_str :: "json \<Rightarrow> pytext" where
  "py_str JNull = [Chars (lit ''None'')]"
| "py_str (JBool b) = [Chars (lit (if b then ''True'' else ''False''))]"
| "py_str (JInt i) = [Chars (str_int i)]"
| "py_str (JStr s) = [Chars s]"
| "py_str v = [StrOf v]"

text \<open>\<^verbatim>\<open>s.startswith(prefix)\<close> and \<^verbatim>\<open>s.rstrip('/')\<close>.\<close>

definition startswith :: "pystr \<Rightarrow> pystr \<Rightarrow> bool" where
  "startswith s p = (take (length p) s = p)"

definition rstrip_slash :: "pystr \<Rightarrow> pystr" where
  "rstrip_slash s = rev (dropWhile (\<lambda>ch. ch = 47) (rev s))"

section \<open>The console, the network and the file system\<close>

text \<open>
  The \<^verbatim>\<open>rich\<close> console is a log of what the program hands to it: a printed line,
  a panel, a table with its rows, and the descriptions of the progress task. Styles are
  not part of the log, and writing to the terminal is taken to succeed.

  An argument of \<^verbatim>\<open>Table.add_row\<close> is a value taken from the response as it is, or
  text made by \<^verbatim>\<open>str\<close> or an f-string. \<^verbatim>\<open>add_row\<close> stores a str as it is and
  \<^verbatim>\<open>None\<close> as the empty string; for any other value (a number, a bool, a list, a
  dict) it raises NotRenderableError. So the cells of a table are texts.
\<close>

datatype cell = Val json | Txt pytext

fun add_row_cell :: "cell \<Rightarrow> exn + pytext" where
  "add_row_cell (Txt t) = Inr t"
| "add_row_cell (Val (JStr s)) = Inr [Chars s]"
| "add_row_cell (Val JNull) = Inr [Chars []]"
| "add_row_cell (Val v) = Inl NotRenderableError"

fun add_row :: "cell list \<Rightarrow> exn + pytext list" where
  "add_row [] = Inr []"
| "add_row (x # xs) =
     bind_exn (add_row_cell x) (\<lambda>t. bind_exn (add_row xs) (\<lambda>ts. Inr (t # ts)))"

record table =
  title :: pystr
  columns :: "pystr list"
  rows :: "pytext list list"

datatype event =
    Print pystr
  | PrintPanel pystr pystr
  | PrintTable table
  | ProgressTask pystr
  | ProgressUpdate pystr

text \<open>
  What \<^verbatim>\<open>session.get(url)\<close> does: it raises a \<^verbatim>\<open>RequestException\<close> (with its
  message), or returns a response with a status code and a body. The body is \<open>Inr j\<close>
  when it is the JSON text of \<open>j\<close>, and \<open>Inl msg\<close> when it is no JSON: then
  \<^verbatim>\<open>response.json()\<close> raises \<^verbatim>\<open>requests.exceptions.JSONDecodeError\<close> with that
  message, which is a \<^verbatim>\<open>RequestException\<close> (requests 2.27 and later).
\<close>

datatype http_outcome =
    RequestException pystr
  | Response int "pystr + json"

text \<open>
  The world the program runs in. \<open>net w n url\<close> is the outcome of a GET of \<open>url\<close>
  made after \<open>n\<close> earlier requests, so the server may answer the same URL differently
  each time. \<open>requests\<close> logs the URLs fetched, \<open>console\<close> the events printed.
  \<open>write_error w f\<close> is the message of the exception that opening or writing file
  \<open>f\<close> raises, if it does; \<open>files\<close> holds the documents written.

  Two more fields stand for what the libraries do with text and bodies the program
  does not control. \<^verbatim>\<open>rich\<close> parses a str it renders as markup and raises MarkupError
  when a closing tag matches no open tag (\<^verbatim>\<open>[/b]\<close> with no \<^verbatim>\<open>[b]\<close> before it);
  \<open>markup_error w t\<close> says that it raises on the text \<open>t\<close>. \<open>json_raises w n url\<close>
  is the exception, other than a \<^verbatim>\<open>RequestException\<close>, that \<^verbatim>\<open>response.json()\<close>
  raises on the response to that request, if it does: RecursionError on a body nested
  deeper than the interpreter allows.
\<close>

record world =
  net :: "nat \<Rightarrow> pystr \<Rightarrow> http_outcome"
  requests :: "pystr list"
  console :: "event list"
  write_error :: "pystr \<Rightarrow> pystr option"
  files :: "pystr \<Rightarrow> json option"
  markup_error :: "pytext \<Rightarrow> bool"
  json_raises :: "nat \<Rightarrow> pystr \<Rightarrow> exn option"

definition emit :: "event \<Rightarrow> world \<Rightarrow> world" where
  "emit e w = w\<lparr>console := console w @ [e]\<rparr>"

definition console_print :: "pystr \<Rightarrow> world \<Rightarrow> world" where
  "console_print s w = emit (Print s) w"

definition session_get :: "pystr \<Rightarrow> world \<Rightarrow> http_outcome \<times> world" where
  "session_get url w = (net w (length (requests w)) url, w\<lparr>requests := requests w @ [url]\<rparr>)"

text \<open>
  The cells of a table of fetched rows hold text the server sent. \<^verbatim>\<open>console.print(table)\<close>
  renders every cell, and the MarkupError of a cell leaves it; then the table is not
  printed. The title and the column headers are literals of the program without a
  bracket, which \<^verbatim>\<open>rich\<close> does not parse.
\<close>

datatype outcome = Returned | Raised exn

definition print_table :: "table \<Rightarrow> world \<Rightarrow> outcome \<times> world" where
  "print_table t w =
     (if list_ex (list_ex (markup_error w)) (rows t) then (Raised MarkupError, w)
      else (Returned, emit (PrintTable t) w))"

text \<open>
  A line, a panel and the endpoint table are made of the program's literals, the command
  line, status codes and exception messages. The functions below log them as given:
  they describe the runs in which the console accepts this text and
  \<^verbatim>\<open>response.json()\<close> returns the body or raises JSONDecodeError. What
  \<^verbatim>\<open>get_api_data\<close> does outside these runs is \<open>get_api_data_exn\<close>.
\<close>

section \<open>SnipeITClient\<close>

record client =
  server_url :: pystr
  api_token :: pystr

definition SnipeITClient :: "pystr \<Rightarrow> pystr \<Rightarrow> client" where
  "SnipeITClient url tok = \<lparr>server_url = rstrip_slash url, api_token = tok\<rparr>"

definition client_test_connection :: "client \<Rightarrow> world \<Rightarrow> bool \<times> world" where
  "client_test_connection c w =
     (case session_get (server_url c @ lit ''/api/v1/statuslabels'') w of
        (Response st body, w1) \<Rightarrow>
          if st = 200 then (True, w1)
          else (False, console_print
                  (lit ''[red]Connection error: '' @ str_int st @ lit ''[/red]'') w1)
      | (RequestException e, w1) \<Rightarrow>
          (False, console_print (lit ''[red]Connection error: '' @ e @ lit ''[/red]'') w1))"

text \<open>
  \<^verbatim>\<open>get_api_data\<close>. The \<^verbatim>\<open>try\<close> block: \<open>Inl e\<close> is a \<^verbatim>\<open>RequestException\<close>
  with message \<open>e\<close> raised inside it, by \<^verbatim>\<open>session.get\<close> or by
  \<^verbatim>\<open>response.json()\<close>. The \<^verbatim>\<open>except\<close> clause catches it, so the function returns
  a value on every path; Python's \<^verbatim>\<open>None\<close> is \<open>JNull\<close>.
\<close>

definition get_api_data_try :: "client \<Rightarrow> pystr \<Rightarrow> world \<Rightarrow> (pystr + json) \<times> world" where
  "get_api_data_try c endpoint w =
     (case session_get (server_url c @ lit ''/api/v1/'' @ endpoint) w of
        (RequestException e, w1) \<Rightarrow> (Inl e, w1)
      | (Response st body, w1) \<Rightarrow>
          if st = 200 then
            (case body of Inl e \<Rightarrow> (Inl e, w1) | Inr j \<Rightarrow> (Inr j, w1))
          else if st = 404 then
            (Inr JNull, console_print
               (lit ''[yellow]Endpoint '' @ endpoint @
                lit '' not found (404) - may not be available in this SnipeIT version[/yellow]'') w1)
          else if st = 401 then
            (Inr JNull, console_print
               (lit ''[red]Authentication error (401) for '' @ endpoint @
                lit '' - check your API token[/red]'') w1)
          else if st = 403 then
            (Inr JNull, console_print
               (lit ''[red]Access denied (403) for '' @ endpoint @
                lit '' - check your token permissions[/red]'') w1)
          else
            (Inr JNull, console_print
               (lit ''[red]API error '' @ endpoint @ lit '': '' @ str_int st @ lit ''[/red]'') w1))"

definition get_api_data :: "client \<Rightarrow> pystr \<Rightarrow> world \<Rightarrow> json \<times> world" where
  "get_api_data c endpoint w =
     (case get_api_data_try c endpoint w of
        (Inr r, w1) \<Rightarrow> (r, w1)
      | (Inl e, w1) \<Rightarrow>
          (JNull, console_print
             (lit ''[red]Request error '' @ endpoint @ lit '': '' @ e @ lit ''[/red]'') w1))"

text \<open>
  \<^verbatim>\<open>get_api_data\<close> once more, with the exceptions of its two library calls.
  \<^verbatim>\<open>console.print(message)\<close> raises MarkupError when the console rejects the message;
  the message holds the endpoint name and, in the \<^verbatim>\<open>except\<close> clause, the text of the
  exception. \<^verbatim>\<open>response.json()\<close> may raise an exception that is no
  \<^verbatim>\<open>RequestException\<close>. The \<^verbatim>\<open>except\<close> clause names \<^verbatim>\<open>RequestException\<close> only,
  so both leave the function: \<open>Inl x\<close> is the exception \<open>x\<close> reaching the caller.
  \<open>print_none\<close> is \<^verbatim>\<open>console.print(message); return None\<close>.
\<close>

definition print_none :: "pystr \<Rightarrow> world \<Rightarrow> (exn + json) \<times> world" where
  "print_none message w =
     (if markup_error w [Chars message] then (Inl MarkupError, w)
      else (Inr JNull, console_print message w))"

definition get_api_data_exn :: "client \<Rightarrow> pystr \<Rightarrow> world \<Rightarrow> (exn + json) \<times> world" where
  "get_api_data_exn c endpoint w =
     (case session_get (server_url c @ lit ''/api/v1/'' @ endpoint) w of
        (RequestException e, w1) \<Rightarrow>
          print_none (lit ''[red]Request error '' @ endpoint @ lit '': '' @ e @ lit ''[/red]'') w1
      | (Response st body, w1) \<Rightarrow>
          if st = 200 then
            (case json_raises w (length (requests w))
                    (server_url c @ lit ''/api/v1/'' @ endpoint) of
               Some x \<Rightarrow> (Inl x, w1)
             | None \<Rightarrow>
                 (case body of
                    Inl e \<Rightarrow>
                      print_none (lit ''[red]Request error '' @ endpoint @ lit '': '' @ e @
                                  lit ''[/red]'') w1
                  | Inr j \<Rightarrow> (Inr j, w1)))
          else if st = 404 then
            print_none
              (lit ''[yellow]Endpoint '' @ endpoint @
               lit '' not found (404) - may not be available in this SnipeIT version[/yellow]'') w1
          else if st = 401 then
            print_none
              (lit ''[red]Authentication error (401) for '' @ endpoint @
               lit '' - check your API token[/red]'') w1
          else if st = 403 then
            print_none
              (lit ''[red]Access denied (403) for '' @ endpoint @
               lit '' - check your token permissions[/red]'') w1
          else
            print_none
              (lit ''[red]API error '' @ endpoint @ lit '': '' @ str_int st @ lit ''[/red]'') w1)"

section \<open>SnipeITSettingsLister\<close>

text \<open>
  A lister returns normally or an exception leaves it (\<open>outcome\<close>). The world it
  leaves behind holds what was printed before.
\<close>

definition display_server_info :: "client \<Rightarrow> world \<Rightarrow> world" where
  "display_server_info c w =
     emit (PrintPanel (lit ''[bold green]SnipeIT Configuration[/bold green]'')
             (lit ''[bold blue]Server:[/bold blue] '' @ server_url c @ [10] @
              lit ''[bold blue]Token:[/bold blue] '' @ take 10 (api_token c) @ lit ''...'')) w"

definition test_connection :: "client \<Rightarrow> world \<Rightarrow> bool \<times> world" where
  "test_connection c w =
     (case client_test_connection c (emit (ProgressTask (lit ''Testing connection...'')) w) of
        (True, w1) \<Rightarrow>
          (True, console_print (lit ''[green]Successfully connected to SnipeIT server![/green]'')
                   (emit (ProgressUpdate (0x2705 # lit '' Connection successful'')) w1))
      | (False, w1) \<Rightarrow>
          (False, console_print (lit ''[red]Unable to connect to SnipeIT server[/red]'')
                    (emit (ProgressUpdate (0x274C # lit '' Connection failed'')) w1)))"

text \<open>
  The body of a \<^verbatim>\<open>for\<close> loop that adds one row per record: the first exception ends
  the loop.
\<close>

fun for_rows :: "(json \<Rightarrow> exn + pytext list) \<Rightarrow> json list \<Rightarrow> exn + pytext list list" where
  "for_rows f [] = Inr []"
| "for_rows f (x # xs) =
     bind_exn (f x) (\<lambda>r. bind_exn (for_rows f xs) (\<lambda>rs. Inr (r # rs)))"

subsection \<open>list_asset_types\<close>

definition category_row :: "json \<Rightarrow> exn + pytext list" where
  "category_row category =
     bind_exn (dict_get category (lit ''id'') (JStr [])) (\<lambda>v1.
     bind_exn (dict_get category (lit ''name'') (JStr [])) (\<lambda>v2.
     bind_exn (dict_get category (lit ''category_type'') (JStr [])) (\<lambda>v3.
     bind_exn (dict_get category (lit ''assets_count'') (JInt 0)) (\<lambda>v4.
     add_row [Txt (py_str v1), Val v2, Val v3, Txt (py_str v4)]))))"

definition list_asset_types :: "client \<Rightarrow> world \<Rightarrow> outcome \<times> world" where
  "list_asset_types c w0 =
     (let w1 = console_print (10 # lit ''[bold cyan]'' @ 0x1F4CB # lit '' Asset Types[/bold cyan]'') w0;
          (data, w2) = get_api_data c (lit ''categories'') w1
      in if \<not> truthy data
         then (Returned, console_print (lit ''[red]Unable to retrieve categories[/red]'') w2)
         else
           (case bind_exn (dict_get data (lit ''rows'') (JArr [])) (\<lambda>rs.
                 bind_exn (py_iter rs) (for_rows category_row)) of
              Inl e \<Rightarrow> (Raised e, w2)
            | Inr trs \<Rightarrow>
                print_table
                  \<lparr>title = lit ''Asset Categories'',
                   columns = [lit ''ID'', lit ''Name'', lit ''Type'', lit ''Asset Count''],
                   rows = trs\<rparr> w2))"

subsection \<open>list_models\<close>

definition model_row :: "json \<Rightarrow> exn + pytext list" where
  "model_row model =
     bind_exn (dict_get model (lit ''id'') (JStr [])) (\<lambda>v1.
     bind_exn (dict_get model (lit ''name'') (JStr [])) (\<lambda>v2.
     bind_exn (bind_exn (dict_get model (lit ''category'') (JObj []))
                 (\<lambda>category. dict_get category (lit ''name'') (JStr []))) (\<lambda>v3.
     bind_exn (bind_exn (dict_get model (lit ''manufacturer'') (JObj []))
                 (\<lambda>manufacturer. dict_get manufacturer (lit ''name'') (JStr []))) (\<lambda>v4.
     bind_exn (dict_get model (lit ''assets_count'') (JInt 0)) (\<lambda>v5.
     add_row [Txt (py_str v1), Val v2, Val v3, Val v4, Txt (py_str v5)])))))"

definition list_models :: "client \<Rightarrow> world \<Rightarrow> outcome \<times> world" where
  "list_models c w0 =
     (let w1 = console_print (10 # lit ''[bold cyan]'' @ 0x1F527 # lit '' Models[/bold cyan]'') w0;
          (data, w2) = get_api_data c (lit ''models'') w1
      in if \<not> truthy data
         then (Returned, console_print (lit ''[red]Unable to retrieve models[/red]'') w2)
         else
           (case bind_exn (dict_get data (lit ''rows'') (JArr [])) (\<lambda>rs.
                 bind_exn (py_slice rs 20) (\<lambda>shown.
                 bind_exn (py_iter shown) (for_rows model_row))) of
              Inl e \<Rightarrow> (Raised e, w2)
            | Inr trs \<Rightarrow>
                (case bind_exn (dict_get data (lit ''rows'') (JArr [])) py_len of
                   Inl e \<Rightarrow> (Raised e, w2)
                 | Inr n \<Rightarrow>
                     print_table
                       \<lparr>title = lit ''Asset Models'',
                        columns = [lit ''ID'', lit ''Name'', lit ''Category'', lit ''Manufacturer'',
                                   lit ''Asset Count''],
                        rows = trs\<rparr>
                        (if n > 20
                         then console_print (lit ''[yellow]... and '' @ str_int (int n - 20) @
                                             lit '' other models[/yellow]'') w2
                         else w2))))"

subsection \<open>list_custom_fields\<close>

definition elements_str :: "json \<Rightarrow> exn + json" where
  "elements_str field =
     bind_exn (dict_get field (lit ''field_values_array'') (JArr [])) (\<lambda>elements0.
       let elements = (if elements0 = JNull then JArr [] else elements0) in
       bind_exn (py_slice elements 3) (\<lambda>first3.
       bind_exn (py_iter first3) (\<lambda>items.
       bind_exn (py_join (lit '', '') items) (\<lambda>joined.
       bind_exn (py_len elements) (\<lambda>n.
       Inr (JStr (joined @ (if n > 3 then lit ''...'' else []))))))))"

definition field_row :: "json \<Rightarrow> exn + pytext list" where
  "field_row field =
     bind_exn (dict_get field (lit ''required'') (JBool False)) (\<lambda>req.
       let required = (if truthy req then [0x2705] else [0x274C]) in
       bind_exn (elements_str field) (\<lambda>elements.
       bind_exn (dict_get field (lit ''id'') (JStr [])) (\<lambda>v1.
       bind_exn (dict_get field (lit ''name'') (JStr [])) (\<lambda>v2.
       bind_exn (dict_get field (lit ''format'') (JStr [])) (\<lambda>v3.
       bind_exn (dict_get field (lit ''field_type'') (JStr [])) (\<lambda>v4.
       add_row [Txt (py_str v1), Val v2, Val v3, Val v4, Val (JStr required), Val elements]))))))"

definition list_custom_fields :: "client \<Rightarrow> world \<Rightarrow> outcome \<times> world" where
  "list_custom_fields c w0 =
     (let w1 = console_print (10 # lit ''[bold cyan]'' @ 0x1F3F7 # 0xFE0F #
                              lit '' Custom Fields[/bold cyan]'') w0;
          (data, w2) = get_api_data c (lit ''fields'') w1
      in if \<not> truthy data
         then (Returned,
               console_print (lit ''[yellow]Note: Custom fields may not be enabled in your SnipeIT instance[/yellow]'')
                 (console_print (lit ''[yellow]No custom fields found or endpoint not available[/yellow]'') w2))
         else
           (case bind_exn (dict_get data (lit ''rows'') (JArr [])) (\<lambda>rs.
                 bind_exn (py_iter rs) (for_rows field_row)) of
              Inl e \<Rightarrow> (Raised e, w2)
            | Inr trs \<Rightarrow>
                print_table
                  \<lparr>title = lit ''Custom Fields'',
                   columns = [lit ''ID'', lit ''Name'', lit ''Type'', lit ''Format'', lit ''Required'',
                              lit ''Elements''],
                   rows = trs\<rparr> w2))"

subsection \<open>list_status_labels\<close>

definition color_display :: "json \<Rightarrow> pytext" where
  "color_display color =
     (if truthy color
      then [Chars (lit ''['')] @ py_str color @ [Chars (lit '']'')] @ py_str color @
           [Chars (lit ''[/'')] @ py_str color @ [Chars (lit '']'')]
      else [Chars []])"

definition status_row :: "json \<Rightarrow> exn + pytext list" where
  "status_row status =
     bind_exn (dict_get status (lit ''color'') (JStr [])) (\<lambda>color.
     bind_exn (dict_get status (lit ''id'') (JStr [])) (\<lambda>v1.
     bind_exn (dict_get status (lit ''name'') (JStr [])) (\<lambda>v2.
     bind_exn (dict_get status (lit ''type'') (JStr [])) (\<lambda>v3.
     bind_exn (bind_exn (dict_get status (lit ''pivot'') (JObj []))
                 (\<lambda>pivot. dict_get pivot (lit ''assets_count'') (JInt 0))) (\<lambda>v5.
     add_row [Txt (py_str v1), Val v2, Val v3, Txt (color_display color), Txt (py_str v5)])))))"

definition list_status_labels :: "client \<Rightarrow> world \<Rightarrow> outcome \<times> world" where
  "list_status_labels c w0 =
     (let w1 = console_print (10 # lit ''[bold cyan]'' @ 0x1F3F7 # 0xFE0F #
                              lit '' Status Labels[/bold cyan]'') w0;
          (data, w2) = get_api_data c (lit ''statuslabels'') w1
      in if \<not> truthy data
         then (Returned, console_print (lit ''[red]Unable to retrieve status labels[/red]'') w2)
         else
           (case bind_exn (dict_get data (lit ''rows'') (JArr [])) (\<lambda>rs.
                 bind_exn (py_iter rs) (for_rows status_row)) of
              Inl e \<Rightarrow> (Raised e, w2)
            | Inr trs \<Rightarrow>
                print_table
                  \<lparr>title = lit ''Status Labels'',
                   columns = [lit ''ID'', lit ''Name'', lit ''Type'', lit ''Color'', lit ''Pivot''],
                   rows = trs\<rparr> w2))"

subsection \<open>list_companies\<close>

definition company_row :: "json \<Rightarrow> exn + pytext list" where
  "company_row company =
     bind_exn (dict_get company (lit ''id'') (JStr [])) (\<lambda>v1.
     bind_exn (dict_get company (lit ''name'') (JStr [])) (\<lambda>v2.
     bind_exn (dict_get company (lit ''assets_count'') (JInt 0)) (\<lambda>v3.
     bind_exn (dict_get company (lit ''licenses_count'') (JInt 0)) (\<lambda>v4.
     bind_exn (dict_get company (lit ''accessories_count'') (JInt 0)) (\<lambda>v5.
     add_row [Txt (py_str v1), Val v2, Txt (py_str v3), Txt (py_str v4), Txt (py_str v5)])))))"

definition list_companies :: "client \<Rightarrow> world \<Rightarrow> outcome \<times> world" where
  "list_companies c w0 =
     (let w1 = console_print (10 # lit ''[bold cyan]'' @ 0x1F3E2 # lit '' Companies[/bold cyan]'') w0;
          (data, w2) = get_api_data c (lit ''companies'') w1
      in if \<not> truthy data
         then (Returned, console_print (lit ''[red]Unable to retrieve companies[/red]'') w2)
         else
           (case bind_exn (dict_get data (lit ''rows'') (JArr [])) (\<lambda>rs.
                 bind_exn (py_slice rs 15) (\<lambda>shown.
                 bind_exn (py_iter shown) (for_rows company_row))) of
              Inl e \<Rightarrow> (Raised e, w2)
            | Inr trs \<Rightarrow>
                (case bind_exn (dict_get data (lit ''rows'') (JArr [])) py_len of
                   Inl e \<Rightarrow> (Raised e, w2)
                 | Inr n \<Rightarrow>
                     print_table
                       \<lparr>title = lit ''Companies'',
                        columns = [lit ''ID'', lit ''Name'', lit ''Assets'', lit ''Licenses'', lit ''Accessories''],
                        rows = trs\<rparr>
                        (if n > 15
                         then console_print (lit ''[yellow]... and '' @ str_int (int n - 15) @
                                             lit '' other companies[/yellow]'') w2
                         else w2))))"

subsection \<open>list_locations\<close>

text \<open>
  \<^verbatim>\<open>address[:30] + "..." if len(address) > 30 else address\<close>, after None has been
  replaced by the empty string.
\<close>

definition address_display :: "json \<Rightarrow> exn + json" where
  "address_display location =
     bind_exn (dict_get location (lit ''address'') (JStr [])) (\<lambda>address0.
       let address = (if address0 = JNull then JStr [] else address0) in
       bind_exn (py_len address) (\<lambda>n.
         if n > 30
         then bind_exn (py_slice address 30) (\<lambda>first30. py_add_str first30 (lit ''...''))
         else Inr address))"

definition location_row :: "json \<Rightarrow> exn + pytext list" where
  "location_row location =
     bind_exn (dict_get location (lit ''parent'') (JObj [])) (\<lambda>parent.
     bind_exn (if truthy parent then dict_get parent (lit ''name'') (JStr [])
               else Inr (JStr [])) (\<lambda>parent_name.
     bind_exn (address_display location) (\<lambda>address.
     bind_exn (dict_get location (lit ''id'') (JStr [])) (\<lambda>v1.
     bind_exn (dict_get location (lit ''name'') (JStr [])) (\<lambda>v2.
     bind_exn (dict_get location (lit ''assets_count'') (JInt 0)) (\<lambda>v4.
     add_row [Txt (py_str v1), Val v2, Val parent_name, Txt (py_str v4), Val address]))))))"

definition list_locations :: "client \<Rightarrow> world \<Rightarrow> outcome \<times> world" where
  "list_locations c w0 =
     (let w1 = console_print (10 # lit ''[bold cyan]'' @ 0x1F4CD # lit '' Locations[/bold cyan]'') w0;
          (data, w2) = get_api_data c (lit ''locations'') w1
      in if \<not> truthy data
         then (Returned, console_print (lit ''[red]Unable to retrieve locations[/red]'') w2)
         else
           (case bind_exn (dict_get data (lit ''rows'') (JArr [])) (\<lambda>rs.
                 bind_exn (py_slice rs 15) (\<lambda>shown.
                 bind_exn (py_iter shown) (for_rows location_row))) of
              Inl e \<Rightarrow> (Raised e, w2)
            | Inr trs \<Rightarrow>
                (case bind_exn (dict_get data (lit ''rows'') (JArr [])) py_len of
                   Inl e \<Rightarrow> (Raised e, w2)
                 | Inr n \<Rightarrow>
                     print_table
                       \<lparr>title = lit ''Locations'',
                        columns = [lit ''ID'', lit ''Name'', lit ''Parent'', lit ''Assets'', lit ''Address''],
                        rows = trs\<rparr>
                        (if n > 15
                         then console_print (lit ''[yellow]... and '' @ str_int (int n - 15) @
                                             lit '' other locations[/yellow]'') w2
                         else w2))))"

subsection \<open>list_departments\<close>

definition department_row :: "json \<Rightarrow> exn + pytext list" where
  "department_row dept =
     bind_exn (dict_get dept (lit ''company'') (JObj [])) (\<lambda>company.
     bind_exn (if truthy company then dict_get company (lit ''name'') (JStr [])
               else Inr (JStr [])) (\<lambda>company_name.
     bind_exn (dict_get dept (lit ''manager'') (JObj [])) (\<lambda>manager.
     bind_exn (if truthy manager then dict_get manager (lit ''name'') (JStr [])
               else Inr (JStr [])) (\<lambda>manager_name.
     bind_exn (dict_get dept (lit ''id'') (JStr [])) (\<lambda>v1.
     bind_exn (dict_get dept (lit ''name'') (JStr [])) (\<lambda>v2.
     bind_exn (dict_get dept (lit ''users_count'') (JInt 0)) (\<lambda>v5.
     add_row [Txt (py_str v1), Val v2, Val company_name, Val manager_name, Txt (py_str v5)])))))))"

definition list_departments :: "client \<Rightarrow> world \<Rightarrow> outcome \<times> world" where
  "list_departments c w0 =
     (let w1 = console_print (10 # lit ''[bold cyan]'' @ 0x1F3E2 # lit '' Departments[/bold cyan]'') w0;
          (data, w2) = get_api_data c (lit ''departments'') w1
      in if \<not> truthy data
         then (Returned, console_print (lit ''[red]Unable to retrieve departments[/red]'') w2)
         else
           (case bind_exn (dict_get data (lit ''rows'') (JArr [])) (\<lambda>rs.
                 bind_exn (py_slice rs 15) (\<lambda>shown.
                 bind_exn (py_iter shown) (for_rows department_row))) of
              Inl e \<Rightarrow> (Raised e, w2)
            | Inr trs \<Rightarrow>
                (case bind_exn (dict_get data (lit ''rows'') (JArr [])) py_len of
                   Inl e \<Rightarrow> (Raised e, w2)
                 | Inr n \<Rightarrow>
                     print_table
                       \<lparr>title = lit ''Departments'',
                        columns = [lit ''ID'', lit ''Name'', lit ''Company'', lit ''Manager'', lit ''Users''],
                        rows = trs\<rparr>
                        (if n > 15
                         then console_print (lit ''[yellow]... and '' @ str_int (int n - 15) @
                                             lit '' other departments[/yellow]'') w2
                         else w2))))"

subsection \<open>list_suppliers\<close>

definition supplier_row :: "json \<Rightarrow> exn + pytext list" where
  "supplier_row supplier =
     bind_exn (dict_get supplier (lit ''id'') (JStr [])) (\<lambda>v1.
     bind_exn (dict_get supplier (lit ''name'') (JStr [])) (\<lambda>v2.
     bind_exn (dict_get supplier (lit ''contact'') (JStr [])) (\<lambda>v3.
     bind_exn (dict_get supplier (lit ''email'') (JStr [])) (\<lambda>v4.
     bind_exn (dict_get supplier (lit ''phone'') (JStr [])) (\<lambda>v5.
     add_row [Txt (py_str v1), Val v2, Val v3, Val v4, Val v5])))))"

definition list_suppliers :: "client \<Rightarrow> world \<Rightarrow> outcome \<times> world" where
  "list_suppliers c w0 =
     (let w1 = console_print (10 # lit ''[bold cyan]'' @ 0x1F3EA # lit '' Suppliers[/bold cyan]'') w0;
          (data, w2) = get_api_data c (lit ''suppliers'') w1
      in if \<not> truthy data
         then (Returned, console_print (lit ''[red]Unable to retrieve suppliers[/red]'') w2)
         else
           (case bind_exn (dict_get data (lit ''rows'') (JArr [])) (\<lambda>rs.
                 bind_exn (py_slice rs 15) (\<lambda>shown.
                 bind_exn (py_iter shown) (for_rows supplier_row))) of
              Inl e \<Rightarrow> (Raised e, w2)
            | Inr trs \<Rightarrow>
                (case bind_exn (dict_get data (lit ''rows'') (JArr [])) py_len of
                   Inl e \<Rightarrow> (Raised e, w2)
                 | Inr n \<Rightarrow>
                     print_table
                       \<lparr>title = lit ''Suppliers'',
                        columns = [lit ''ID'', lit ''Name'', lit ''Contact'', lit ''Email'', lit ''Phone''],
                        rows = trs\<rparr>
                        (if n > 15
                         then console_print (lit ''[yellow]... and '' @ str_int (int n - 15) @
                                             lit '' other suppliers[/yellow]'') w2
                         else w2))))"

subsection \<open>list_manufacturers\<close>

text \<open>\<^verbatim>\<open>url[:30] + "..." if len(url) > 30 else url\<close>, None replaced as above.\<close>

definition url_display :: "json \<Rightarrow> exn + json" where
  "url_display manufacturer =
     bind_exn (dict_get manufacturer (lit ''url'') (JStr [])) (\<lambda>url0.
       let url = (if url0 = JNull then JStr [] else url0) in
       bind_exn (py_len url) (\<lambda>n.
         if n > 30
         then bind_exn (py_slice url 30) (\<lambda>first30. py_add_str first30 (lit ''...''))
         else Inr url))"

definition manufacturer_row :: "json \<Rightarrow> exn + pytext list" where
  "manufacturer_row manufacturer =
     bind_exn (url_display manufacturer) (\<lambda>url.
     bind_exn (dict_get manufacturer (lit ''id'') (JStr [])) (\<lambda>v1.
     bind_exn (dict_get manufacturer (lit ''name'') (JStr [])) (\<lambda>v2.
     bind_exn (dict_get manufacturer (lit ''support_email'') (JStr [])) (\<lambda>v4.
     bind_exn (dict_get manufacturer (lit ''support_phone'') (JStr [])) (\<lambda>v5.
     add_row [Txt (py_str v1), Val v2, Val url, Val v4, Val v5])))))"

definition list_manufacturers :: "client \<Rightarrow> world \<Rightarrow> outcome \<times> world" where
  "list_manufacturers c w0 =
     (let w1 = console_print (10 # lit ''[bold cyan]'' @ 0x1F3ED # lit '' Manufacturers[/bold cyan]'') w0;
          (data, w2) = get_api_data c (lit ''manufacturers'') w1
      in if \<not> truthy data
         then (Returned, console_print (lit ''[red]Unable to retrieve manufacturers[/red]'') w2)
         else
           (case bind_exn (dict_get data (lit ''rows'') (JArr [])) (\<lambda>rs.
                 bind_exn (py_slice rs 15) (\<lambda>shown.
                 bind_exn (py_iter shown) (for_rows manufacturer_row))) of
              Inl e \<Rightarrow> (Raised e, w2)
            | Inr trs \<Rightarrow>
                (case bind_exn (dict_get data (lit ''rows'') (JArr [])) py_len of
                   Inl e \<Rightarrow> (Raised e, w2)
                 | Inr n \<Rightarrow>
                     print_table
                       \<lparr>title = lit ''Manufacturers'',
                        columns = [lit ''ID'', lit ''Name'', lit ''URL'', lit ''Support Email'', lit ''Support Phone''],
                        rows = trs\<rparr>
                        (if n > 15
                         then console_print (lit ''[yellow]... and '' @ str_int (int n - 15) @
                                             lit '' other manufacturers[/yellow]'') w2
                         else w2))))"

subsection \<open>show_api_endpoints\<close>

definition endpoints :: "(string \<times> string) list" where
  "endpoints =
     [(''hardware'', ''Hardware assets''),
      (''models'', ''Models''),
      (''categories'', ''Categories''),
      (''fields'', ''Custom fields''),
      (''statuslabels'', ''Status labels''),
      (''companies'', ''Companies''),
      (''locations'', ''Locations''),
      (''departments'', ''Departments''),
      (''suppliers'', ''Suppliers''),
      (''manufacturers'', ''Manufacturers''),
      (''users'', ''Users''),
      (''licenses'', ''Licenses''),
      (''accessories'', ''Accessories''),
      (''consumables'', ''Consumables''),
      (''components'', ''Components'')]"

definition show_api_endpoints :: "client \<Rightarrow> world \<Rightarrow> world" where
  "show_api_endpoints c w0 =
     (let w1 = console_print (10 # lit ''[bold cyan]'' @ 0x1F517 #
                              lit '' Available API Endpoints[/bold cyan]'') w0
      in emit (PrintTable \<lparr>title = lit ''SnipeIT API Endpoints'',
           columns = [lit ''Endpoint'', lit ''Description'', lit ''URL''],
           rows = map (\<lambda>(endpoint, description).
                    [[Chars (lit endpoint)], [Chars (lit description)],
                     [Chars (server_url c @ lit ''/api/v1/'' @ lit endpoint)]]) endpoints\<rparr>) w1)"

subsection \<open>export_config\<close>

text \<open>
  The nine fetches are made in the order of the dict literal, then the dict is written.
  \<^verbatim>\<open>json.dump\<close> writes the keys in the dict's order; the file is modelled by the
  document it holds. An exception while opening or writing is caught and reported.
\<close>

definition export_config :: "client \<Rightarrow> pystr \<Rightarrow> world \<Rightarrow> world" where
  "export_config c filename w0 =
     (let w1 = console_print (10 # lit ''[bold cyan]'' @ 0x1F4BE # lit '' Exporting configuration to '' @
                              filename @ lit ''[/bold cyan]'') w0;
          (categories, w2) = get_api_data c (lit ''categories'') w1;
          (models, w3) = get_api_data c (lit ''models'') w2;
          (fields, w4) = get_api_data c (lit ''fields'') w3;
          (statuslabels, w5) = get_api_data c (lit ''statuslabels'') w4;
          (companies, w6) = get_api_data c (lit ''companies'') w5;
          (locations, w7) = get_api_data c (lit ''locations'') w6;
          (departments, w8) = get_api_data c (lit ''departments'') w7;
          (suppliers, w9) = get_api_data c (lit ''suppliers'') w8;
          (manufacturers, w10) = get_api_data c (lit ''manufacturers'') w9;
          config = JObj
            [(lit ''server_url'', JStr (server_url c)),
             (lit ''timestamp'', JNull),
             (lit ''categories'', categories),
             (lit ''models'', models),
             (lit ''fields'', fields),
             (lit ''statuslabels'', statuslabels),
             (lit ''companies'', companies),
             (lit ''locations'', locations),
             (lit ''departments'', departments),
             (lit ''suppliers'', suppliers),
             (lit ''manufacturers'', manufacturers)]
      in case write_error w10 filename of
           None \<Rightarrow>
             console_print (lit ''[green]Configuration exported successfully to '' @ filename @
                            lit ''[/green]'')
               (w10\<lparr>files := (files w10)(filename := Some config)\<rparr>)
         | Some e \<Rightarrow>
             console_print (lit ''[red]Error during export: '' @ e @ lit ''[/red]'') w10)"

section \<open>main\<close>

text \<open>The parsed command line, \<^verbatim>\<open>args\<close>; field \<open>arg_x\<close> is \<^verbatim>\<open>args.x\<close>.\<close>

record args =
  arg_server :: pystr
  arg_token :: pystr
  arg_all :: bool
  arg_categories :: bool
  arg_models :: bool
  arg_custom_fields :: bool
  arg_status_labels :: bool
  arg_companies :: bool
  arg_locations :: bool
  arg_departments :: bool
  arg_suppliers :: bool
  arg_manufacturers :: bool
  arg_api_endpoints :: bool
  arg_export :: bool
  arg_export_file :: pystr

text \<open>
  How the process ends: \<^verbatim>\<open>main\<close> returns, \<^verbatim>\<open>sys.exit(n)\<close> is called, or an
  exception nobody catches ends it with a traceback. The exit code follows.
\<close>

datatype ending = Completed | SysExit int | Traceback exn


text \<open>
  One \<^verbatim>\<open>if cond: lister.list_x()\<close> of \<^verbatim>\<open>main\<close>: skipped when an earlier one has
  raised.
\<close>

definition step :: "bool \<Rightarrow> (world \<Rightarrow> outcome \<times> world) \<Rightarrow> outcome \<times> world \<Rightarrow> outcome \<times> world" where
  "step cond f r =
     (case r of
        (Raised e, w) \<Rightarrow> (Raised e, w)
      | (Returned, w) \<Rightarrow> if cond then f w else (Returned, w))"

text \<open>The part of \<^verbatim>\<open>main\<close> under "Display configurations".\<close>

definition display_configurations :: "bool \<Rightarrow> args \<Rightarrow> client \<Rightarrow> world \<Rightarrow> outcome \<times> world" where
  "display_configurations show_all a c w =
     step (show_all \<or> arg_api_endpoints a) (\<lambda>w. (Returned, show_api_endpoints c w))
    (step (show_all \<or> arg_manufacturers a) (list_manufacturers c)
    (step (show_all \<or> arg_suppliers a) (list_suppliers c)
    (step (show_all \<or> arg_departments a) (list_departments c)
    (step (show_all \<or> arg_locations a) (list_locations c)
    (step (show_all \<or> arg_companies a) (list_companies c)
    (step (show_all \<or> arg_status_labels a) (list_status_labels c)
    (step (show_all \<or> arg_custom_fields a) (list_custom_fields c)
    (step (show_all \<or> arg_models a) (list_models c)
    (step (show_all \<or> arg_categories a) (list_asset_types c)
       (Returned, w))))))))))"

definition main :: "args \<Rightarrow> world \<Rightarrow> ending \<times> world" where
  "main a w0 =
     (if \<not> (startswith (arg_server a) (lit ''http://'') \<or>
             startswith (arg_server a) (lit ''https://''))
      then (SysExit 1,
            console_print (lit ''[red]Server URL must start with http:// or https://[/red]'') w0)
      else
        (let c = SnipeITClient (arg_server a) (arg_token a);
             w1 = display_server_info c w0;
             (connected, w2) = test_connection c w1
         in if \<not> connected then (SysExit 1, w2)
            else
              (let show_all = (arg_all a \<or> \<not> list_ex (\<lambda>flag. flag)
                     [arg_categories a, arg_models a, arg_custom_fields a, arg_status_labels a,
                      arg_companies a, arg_locations a, arg_departments a, arg_suppliers a,
                      arg_manufacturers a, arg_api_endpoints a]);
                   (r, w3) = step (arg_export a)
                               (\<lambda>w. (Returned, export_config c (arg_export_file a) w))
                               (display_configurations show_all a c w2)
               in (case r of
                     Raised e \<Rightarrow> (Traceback e, w3)
                   | Returned \<Rightarrow>
                       (Completed,
                        console_print (10 # lit ''[bold green]'' @ 0x2705 #
                                       lit '' Analysis completed![/bold green]'') w3)))))"

section \<open>Notions used to state the properties\<close>

text \<open>The URL \<^verbatim>\<open>get_api_data\<close> requests for an endpoint name.\<close>

definition api_url :: "client \<Rightarrow> pystr \<Rightarrow> pystr" where
  "api_url c endpoint = server_url c @ lit ''/api/v1/'' @ endpoint"

text \<open>
  The raw fetched response of an outcome, or null when the fetch failed: the parsed body
  of a 200 response, and \<open>JNull\<close> otherwise.
\<close>

fun fetched :: "http_outcome \<Rightarrow> json" where
  "fetched (Response st (Inr j)) = (if st = 200 then j else JNull)"
| "fetched (Response st (Inl e)) = JNull"
| "fetched (RequestException e) = JNull"

text \<open>The nine resource listings, each with its endpoint name and its row function.\<close>

datatype kind =
    Categories | Models | Fields | StatusLabels | Companies
  | Locations | Departments | Suppliers | Manufacturers

fun lister :: "kind \<Rightarrow> client \<Rightarrow> world \<Rightarrow> outcome \<times> world" where
  "lister Categories = list_asset_types"
| "lister Models = list_models"
| "lister Fields = list_custom_fields"
| "lister StatusLabels = list_status_labels"
| "lister Companies = list_companies"
| "lister Locations = list_locations"
| "lister Departments = list_departments"
| "lister Suppliers = list_suppliers"
| "lister Manufacturers = list_manufacturers"

fun endpoint_of :: "kind \<Rightarrow> pystr" where
  "endpoint_of Categories = lit ''categories''"
| "endpoint_of Models = lit ''models''"
| "endpoint_of Fields = lit ''fields''"
| "endpoint_of StatusLabels = lit ''statuslabels''"
| "endpoint_of Companies = lit ''companies''"
| "endpoint_of Locations = lit ''locations''"
| "endpoint_of Departments = lit ''departments''"
| "endpoint_of Suppliers = lit ''suppliers''"
| "endpoint_of Manufacturers = lit ''manufacturers''"

fun row_of :: "kind \<Rightarrow> json \<Rightarrow> exn + pytext list" where
  "row_of Categories = category_row"
| "row_of Models = model_row"
| "row_of Fields = field_row"
| "row_of StatusLabels = status_row"
| "row_of Companies = company_row"
| "row_of Locations = location_row"
| "row_of Departments = department_row"
| "row_of Suppliers = supplier_row"
| "row_of Manufacturers = manufacturer_row"

text \<open>
  The display caps as the specification lists them: 20 for models, 15 for companies,
  locations, departments, suppliers and manufacturers, none for categories and status
  labels. The specification names no cap for custom fields.
\<close>

fun spec_display_cap :: "kind \<Rightarrow> nat option" where
  "spec_display_cap Models = Some 20"
| "spec_display_cap Companies = Some 15"
| "spec_display_cap Locations = Some 15"
| "spec_display_cap Departments = Some 15"
| "spec_display_cap Suppliers = Some 15"
| "spec_display_cap Manufacturers = Some 15"
| "spec_display_cap Categories = None"
| "spec_display_cap StatusLabels = None"
| "spec_display_cap Fields = None"

text \<open>The overflow notice that states a count \<open>d\<close> of rows not shown.\<close>

definition overflow_notice :: "kind \<Rightarrow> nat \<Rightarrow> pystr" where
  "overflow_notice k d =
     lit ''[yellow]... and '' @ str_int (int d) @ lit '' other '' @ endpoint_of k @ lit ''[/yellow]''"

text \<open>
  \<open>ds\<close> is the decimal numeral of \<open>n\<close>: digits only, no leading zero, and read as
  a number in base ten it is \<open>n\<close>.
\<close>

definition is_decimal :: "pystr \<Rightarrow> nat \<Rightarrow> bool" where
  "is_decimal ds n =
     (ds \<noteq> [] \<and> list_all (\<lambda>d. 48 \<le> d \<and> d \<le> 57) ds \<and> (hd ds = 48 \<longrightarrow> ds = [48]) \<and>
      foldl (\<lambda>a d. 10 * a + (d - 48)) 0 ds = n)"






text \<open>Every fetch from now on fails, or brings a value that \<^verbatim>\<open>not data\<close> rejects.\<close>

definition all_fetches_fail :: "world \<Rightarrow> bool" where
  "all_fetches_fail w =
     (\<forall>n url. length (requests w) \<le> n \<longrightarrow> \<not> truthy (fetched (net w n url)))"

text \<open>Running operations one after the other, until one raises.\<close>

definition run_all :: "(world \<Rightarrow> outcome \<times> world) list \<Rightarrow> world \<Rightarrow> outcome \<times> world" where
  "run_all fs w = foldl (\<lambda>r f. step True f r) (Returned, w) fs"

text \<open>No selection flag is given on the command line.\<close>

definition no_selection :: "args \<Rightarrow> bool" where
  "no_selection a =
     (\<not> arg_all a \<and> \<not> arg_categories a \<and> \<not> arg_models a \<and> \<not> arg_custom_fields a \<and>
      \<not> arg_status_labels a \<and> \<not> arg_companies a \<and> \<not> arg_locations a \<and>
      \<not> arg_departments a \<and> \<not> arg_suppliers a \<and> \<not> arg_manufacturers a \<and>
      \<not> arg_api_endpoints a)"

subsection \<open>Concrete inputs\<close>

text \<open>
  A client, a fresh world whose server answers every request with the given outcome,
  and command lines. In the runs below the console of this world is only given text
  that \<^verbatim>\<open>rich\<close> accepts (cells without a bracket, and messages whose tags are the
  matching pairs of the program's literals), and no body is nested deeply.
\<close>

definition example_client :: client where
  "example_client = SnipeITClient (lit ''https://snipe.example.org/'') (lit ''0123456789abcdef'')"

definition answering :: "http_outcome \<Rightarrow> world" where
  "answering out =
     \<lparr>net = (\<lambda>n url. out), requests = [], console = [],
      write_error = (\<lambda>f. None), files = (\<lambda>f. None),
      markup_error = (\<lambda>t. False), json_raises = (\<lambda>n url. None)\<rparr>"

definition example_args :: args where
  "example_args =
     \<lparr>arg_server = lit ''https://snipe.example.org/'', arg_token = lit ''0123456789abcdef'',
      arg_all = False, arg_categories = False, arg_models = False, arg_custom_fields = False,
      arg_status_labels = False, arg_companies = False, arg_locations = False,
      arg_departments = False, arg_suppliers = False, arg_manufacturers = False,
      arg_api_endpoints = False, arg_export = False,
      arg_export_file = lit ''snipeit_config.json''\<rparr>"

text \<open>A server that answers the connectivity test and fails every later request.\<close>

definition probe_only :: world where
  "probe_only =
     \<lparr>net = (\<lambda>n url. if n = 0 then Response 200 (Inr (JObj [])) else Response 500 (Inl [])),
      requests = [], console = [],
      write_error = (\<lambda>f. None), files = (\<lambda>f. None),
      markup_error = (\<lambda>t. False), json_raises = (\<lambda>n url. None)\<rparr>"

text \<open>A model whose category is null, and a status label whose pivot is null.\<close>

definition null_category_model :: json where
  "null_category_model =
     JObj [(lit ''id'', JInt 1), (lit ''name'', JStr (lit ''Latitude 5420'')),
           (lit ''category'', JNull),
           (lit ''manufacturer'', JObj [(lit ''id'', JInt 2), (lit ''name'', JStr (lit ''Dell''))]),
           (lit ''assets_count'', JInt 3)]"

definition null_pivot_status :: json where
  "null_pivot_status =
     JObj [(lit ''id'', JInt 2), (lit ''name'', JStr (lit ''Ready to Deploy'')),
           (lit ''type'', JStr (lit ''deployable'')), (lit ''pivot'', JNull)]"



text \<open>
  A company whose name is the number 5, and a status label with the colour
  \<^verbatim>\<open>FF0000\<close>; a body of 100000 nested arrays, on which \<^verbatim>\<open>response.json()\<close>
  raises RecursionError; and the world \<open>w\<close> with a console that rejects the text
  whose characters are \<open>s\<close>.
\<close>

definition number_named_company :: json where
  "number_named_company = JObj [(lit ''id'', JInt 1), (lit ''name'', JInt 5)]"



definition red_status :: json where
  "red_status =
     JObj [(lit ''id'', JInt 3), (lit ''name'', JStr (lit ''Broken'')),
           (lit ''type'', JStr (lit ''undeployable'')), (lit ''color'', JStr (lit ''FF0000''))]"

fun chars_of :: "pytext \<Rightarrow> pystr option" where
  "chars_of [] = Some []"
| "chars_of (Chars s # t) = map_option (\<lambda>r. s @ r) (chars_of t)"
| "chars_of (StrOf v # t) = None"

definition rejecting :: "pystr \<Rightarrow> world \<Rightarrow> world" where
  "rejecting s w = w\<lparr>markup_error := (\<lambda>t. chars_of t = Some s)\<rparr>"

text \<open>A companies response with sixteen rows, and a categories response without rows.\<close>

definition sixteen_companies :: json where
  "sixteen_companies =
     JObj [(lit ''total'', JInt 16),
           (lit ''rows'', JArr (replicate 16 (JObj [(lit ''id'', JInt 7),
                                                     (lit ''name'', JStr (lit ''Acme''))])))]"


section \<open>Properties\<close>

lemma lit_eq_iff [simp]: "lit s = lit t \<longleftrightarrow> s = t"
proof
  assume "lit s = lit t"
  then have "map (of_char :: char \<Rightarrow> nat) s = map of_char t"
    by (simp add: lit_def)
  moreover have "inj (of_char :: char \<Rightarrow> nat)"
    by (rule inj_of_char)
  ultimately show "s = t"
    by (simp add: inj_map_eq_map)
qed simp

lemma length_lit [simp]: "length (lit s) = length s"
  by (simp add: lit_def)

lemma lit_Nil [simp]: "lit [] = []"
  by (simp add: lit_def)

lemma lit_eq_Nil [simp]: "lit s = [] \<longleftrightarrow> s = []"
  by (simp add: lit_def)


lemma lit_append: "lit s @ lit t = lit (s @ t)"
  by (simp add: lit_def)

subsection \<open>Printing changes the console only\<close>

lemma requests_emit [simp]: "requests (emit e w) = requests w"
  by (simp add: emit_def)

lemma net_emit [simp]: "net (emit e w) = net w"
  by (simp add: emit_def)

lemma requests_console_print [simp]: "requests (console_print s w) = requests w"
  by (simp add: console_print_def)

lemma net_console_print [simp]: "net (console_print s w) = net w"
  by (simp add: console_print_def)

lemma files_emit [simp]: "files (emit e w) = files w"
  by (simp add: emit_def)

lemma write_error_emit [simp]: "write_error (emit e w) = write_error w"
  by (simp add: emit_def)

lemma files_console_print [simp]: "files (console_print s w) = files w"
  by (simp add: console_print_def)

lemma write_error_console_print [simp]: "write_error (console_print s w) = write_error w"
  by (simp add: console_print_def)

lemma markup_error_emit [simp]: "markup_error (emit e w) = markup_error w"
  by (simp add: emit_def)

lemma markup_error_console_print [simp]: "markup_error (console_print s w) = markup_error w"
  by (simp add: console_print_def)

lemma json_raises_emit [simp]: "json_raises (emit e w) = json_raises w"
  by (simp add: emit_def)

lemma json_raises_console_print [simp]: "json_raises (console_print s w) = json_raises w"
  by (simp add: console_print_def)

lemma console_emit [simp]: "console (emit e w) = console w @ [e]"
  by (simp add: emit_def)

lemma console_console_print [simp]: "console (console_print s w) = console w @ [Print s]"
  by (simp add: console_print_def)

subsection \<open>What get_api_data does to the world\<close>

lemmas api_defs = get_api_data_def get_api_data_try_def session_get_def api_url_def

lemma get_api_data_ok:
  "net w (length (requests w)) (api_url c ep) = Response 200 (Inr j) \<Longrightarrow>
   get_api_data c ep w = (j, w\<lparr>requests := requests w @ [api_url c ep]\<rparr>)"
  by (simp add: api_defs)

lemma get_api_data_failed:
  assumes "\<nexists>j. net w (length (requests w)) (api_url c ep) = Response 200 (Inr j)"
  shows "\<exists>msg. get_api_data c ep w =
           (JNull, console_print msg (w\<lparr>requests := requests w @ [api_url c ep]\<rparr>))"
proof (cases "net w (length (requests w)) (api_url c ep)")
  case (RequestException e)
  then show ?thesis by (auto simp add: api_defs)
next
  case (Response st body)
  with assms show ?thesis by (cases body) (auto simp add: api_defs)
qed

lemma fst_get_api_data:
  "fst (get_api_data c ep w) = fetched (net w (length (requests w)) (api_url c ep))"
proof (cases "net w (length (requests w)) (api_url c ep)")
  case (RequestException e)
  then show ?thesis by (simp add: api_defs)
next
  case (Response st body)
  then show ?thesis by (cases body) (simp_all add: api_defs)
qed

lemma snd_get_api_data:
  "\<exists>evs. snd (get_api_data c ep w) =
     w\<lparr>requests := requests w @ [api_url c ep], console := console w @ evs\<rparr>"
proof (cases "\<exists>j. net w (length (requests w)) (api_url c ep) = Response 200 (Inr j)")
  case True
  then obtain j where "net w (length (requests w)) (api_url c ep) = Response 200 (Inr j)" ..
  then have "snd (get_api_data c ep w) = w\<lparr>requests := requests w @ [api_url c ep]\<rparr>"
    by (simp add: get_api_data_ok)
  then have "snd (get_api_data c ep w) =
     w\<lparr>requests := requests w @ [api_url c ep], console := console w @ []\<rparr>"
    by simp
  then show ?thesis ..
next
  case False
  from get_api_data_failed [OF this] obtain msg where
    "get_api_data c ep w =
       (JNull, console_print msg (w\<lparr>requests := requests w @ [api_url c ep]\<rparr>))" ..
  then have "snd (get_api_data c ep w) =
     w\<lparr>requests := requests w @ [api_url c ep], console := console w @ [Print msg]\<rparr>"
    by (simp add: console_print_def emit_def)
  then show ?thesis ..
qed

lemma requests_get_api_data [simp]:
  "requests (snd (get_api_data c ep w)) = requests w @ [api_url c ep]"
  using snd_get_api_data [of c ep w] by auto

lemma net_get_api_data [simp]: "net (snd (get_api_data c ep w)) = net w"
  using snd_get_api_data [of c ep w] by auto

lemma files_get_api_data [simp]: "files (snd (get_api_data c ep w)) = files w"
  using snd_get_api_data [of c ep w] by auto

lemma write_error_get_api_data [simp]: "write_error (snd (get_api_data c ep w)) = write_error w"
  using snd_get_api_data [of c ep w] by auto

lemma markup_error_get_api_data [simp]: "markup_error (snd (get_api_data c ep w)) = markup_error w"
  using snd_get_api_data [of c ep w] by auto

lemma json_raises_get_api_data [simp]: "json_raises (snd (get_api_data c ep w)) = json_raises w"
  using snd_get_api_data [of c ep w] by auto


subsection \<open>get_api_data\<close>

text \<open>
  The three ways \<open>get_api_data_exn\<close> ends: with the parsed body, with the exception of
  \<^verbatim>\<open>response.json()\<close>, or after handing one message to the console.
\<close>

lemma get_api_data_exn_ok:
  "net w (length (requests w)) (api_url c ep) = Response 200 (Inr j) \<Longrightarrow>
   json_raises w (length (requests w)) (api_url c ep) = None \<Longrightarrow>
   get_api_data_exn c ep w = (Inr j, w\<lparr>requests := requests w @ [api_url c ep]\<rparr>)"
  by (simp add: get_api_data_exn_def session_get_def api_url_def)



text \<open>
  When the console accepts every message and \<^verbatim>\<open>response.json()\<close> raises nothing but
  JSONDecodeError, \<open>get_api_data_exn\<close> is \<open>get_api_data\<close>.
\<close>

lemma get_api_data_exn_agrees:
  assumes "json_raises w (length (requests w)) (api_url c ep) = None"
    and "\<forall>s. \<not> markup_error w [Chars s]"
  shows "get_api_data_exn c ep w = (Inr (fst (get_api_data c ep w)), snd (get_api_data c ep w))"
proof (cases "net w (length (requests w)) (api_url c ep)")
  case (RequestException e)
  with assms show ?thesis
    by (simp add: get_api_data_exn_def api_defs print_none_def)
next
  case (Response st body)
  with assms show ?thesis
    by (cases body) (simp_all add: get_api_data_exn_def api_defs print_none_def)
qed

text \<open>
  When the fetch brings a body, the two agree whatever the console does: nothing is
  printed.
\<close>

lemma get_api_data_exn_agrees_on_body:
  assumes "net w (length (requests w)) (api_url c ep) = Response 200 (Inr j)"
    and "json_raises w (length (requests w)) (api_url c ep) = None"
  shows "get_api_data_exn c ep w = (Inr (fst (get_api_data c ep w)), snd (get_api_data c ep w))"
  using assms by (simp add: get_api_data_exn_ok get_api_data_ok)




subsection \<open>The cells add_row stores\<close>

lemma add_row_texts [simp]: "add_row (map Txt ts) = Inr ts"
  by (induction ts) (simp_all add: bind_exn_def)

lemma add_row_length: "add_row cells = Inr ts \<Longrightarrow> length ts = length cells"
  by (induction cells arbitrary: ts) (auto simp add: bind_exn_def split: sum.splits)

lemma add_row_nth:
  "add_row cells = Inr ts \<Longrightarrow> i < length cells \<Longrightarrow> add_row_cell (cells ! i) = Inr (ts ! i)"
proof (induction cells arbitrary: ts i)
  case Nil
  then show ?case by simp
next
  case (Cons x xs)
  then show ?case
    by (cases i) (auto simp add: bind_exn_def split: sum.splits)
qed

lemma add_row_cell_str: "add_row_cell (Val v) = Inr t \<Longrightarrow> (v = JNull \<and> t = [Chars []]) \<or> (\<exists>s. v = JStr s \<and> t = [Chars s])"
  by (cases v) auto

subsection \<open>Nested objects that are null\<close>

text \<open>
  A null \<^verbatim>\<open>parent\<close>, \<^verbatim>\<open>company\<close> or \<^verbatim>\<open>manager\<close> gives the empty string as the
  derived name: the \<^verbatim>\<open>if parent else ''\<close> guard catches it, and the row is what
  \<^verbatim>\<open>add_row\<close> makes of cells with the empty string in these columns.
\<close>

lemma department_row_null_nested:
  "map_of kvs (lit ''company'') = Some JNull \<Longrightarrow> map_of kvs (lit ''manager'') = Some JNull \<Longrightarrow>
   \<exists>a1 a2 a5. department_row (JObj kvs) = add_row [a1, a2, Val (JStr []), Val (JStr []), a5]"
  by (simp add: department_row_def bind_exn_def del: add_row.simps) (intro exI, rule refl)

lemma location_row_null_parent:
  "map_of kvs (lit ''parent'') = Some JNull \<Longrightarrow> address_display (JObj kvs) = Inr a \<Longrightarrow>
   \<exists>a1 a2 a4. location_row (JObj kvs) = add_row [a1, a2, Val (JStr []), a4, Val a]"
  by (simp add: location_row_def bind_exn_def del: add_row.simps) (intro exI, rule refl)

text \<open>
  C1 fails on the code for \<^verbatim>\<open>category\<close> and \<^verbatim>\<open>manufacturer\<close>:
  \<^verbatim>\<open>model.get('category', {})\<close> returns \<^verbatim>\<open>None\<close> when the key is present with a null
  value, and \<^verbatim>\<open>None.get\<close> raises AttributeError. \<^verbatim>\<open>list_models\<close> on a response
  with one model whose category is null ends with that exception, and no table.
\<close>

theorem list_models_null_category:
  "model_row null_category_model = Inl AttributeError \<and>
   fst (list_models example_client
          (answering (Response 200 (Inr (JObj [(lit ''total'', JInt 1),
                                               (lit ''rows'', JArr [null_category_model])]))))) =
     Raised AttributeError"
  by (simp add: list_models_def model_row_def null_category_model_def bind_exn_def
      api_defs console_print_def emit_def answering_def)

subsection \<open>The Pivot column of a status label\<close>

text \<open>When the \<^verbatim>\<open>pivot\<close> key is absent, the Pivot cell is \<^verbatim>\<open>str(0)\<close>.\<close>

lemma status_row_no_pivot:
  "map_of kvs (lit ''pivot'') = None \<Longrightarrow>
   \<exists>a1 a2 a3 a4. status_row (JObj kvs) = add_row [a1, a2, a3, a4, Txt [Chars (str_int 0)]]"
  by (simp add: status_row_def bind_exn_def del: add_row.simps) (intro exI, rule refl)

text \<open>
  C9 fails on the code for a pivot that is present and null:
  \<^verbatim>\<open>status.get('pivot', {})\<close> is \<^verbatim>\<open>None\<close> then, and \<^verbatim>\<open>None.get\<close> raises
  AttributeError, which ends \<^verbatim>\<open>list_status_labels\<close>.
\<close>

theorem list_status_labels_null_pivot:
  "status_row null_pivot_status = Inl AttributeError \<and>
   fst (list_status_labels example_client
          (answering (Response 200 (Inr (JObj [(lit ''total'', JInt 1),
                                               (lit ''rows'', JArr [null_pivot_status])]))))) =
     Raised AttributeError"
  by (simp add: list_status_labels_def status_row_def null_pivot_status_def bind_exn_def
      api_defs console_print_def emit_def answering_def)

subsection \<open>Truncation of address and url\<close>

text \<open>
  The Address and URL cells of a row are what \<^verbatim>\<open>add_row\<close> stores for the values
  computed by the two displays.
\<close>

lemma location_row_address:
  "location_row loc = Inr cells \<Longrightarrow>
   \<exists>a. address_display loc = Inr a \<and> add_row_cell (Val a) = Inr (cells ! 4)"
  by (auto simp add: location_row_def bind_exn_def split: sum.splits if_splits)

lemma manufacturer_row_url:
  "manufacturer_row m = Inr cells \<Longrightarrow>
   \<exists>a. url_display m = Inr a \<and> add_row_cell (Val a) = Inr (cells ! 2)"
  by (auto simp add: manufacturer_row_def bind_exn_def split: sum.splits if_splits)



subsection \<open>Selection flags\<close>

lemma display_configurations_all:
  "display_configurations True a c w =
     run_all [list_asset_types c, list_models c, list_custom_fields c, list_status_labels c,
              list_companies c, list_locations c, list_departments c, list_suppliers c,
              list_manufacturers c, (\<lambda>w. (Returned, show_api_endpoints c w))] w"
  by (simp add: display_configurations_def run_all_def)


text \<open>
  C8. A run with no selection flag (none of \<^verbatim>\<open>--all\<close>, \<^verbatim>\<open>--categories\<close>, ...,
  \<^verbatim>\<open>--api-endpoints\<close>) is the same run as one with \<^verbatim>\<open>--all\<close> and otherwise the
  same arguments: the same ending, the same requests in the same order, the same console
  output and the same files.
\<close>

theorem no_flags_is_all:
  "no_selection a \<Longrightarrow> main a w = main (a\<lparr>arg_all := True\<rparr>) w"
  by (simp add: main_def Let_def no_selection_def display_configurations_all cong: if_cong)

theorem no_flags_is_all_witness:
  "no_selection example_args \<and>
   main example_args probe_only = main (example_args\<lparr>arg_all := True\<rparr>) probe_only"
  using no_flags_is_all [of example_args probe_only]
  by (simp add: no_selection_def example_args_def)


subsection \<open>Exit codes\<close>



text \<open>
  When every fetch fails, each listing prints its notice and returns, and every fetch
  after it still fails.
\<close>

lemma all_fetches_fail_emit [simp]: "all_fetches_fail (emit e w) = all_fetches_fail w"
  by (simp add: all_fetches_fail_def emit_def)

lemma all_fetches_fail_console_print [simp]:
  "all_fetches_fail (console_print s w) = all_fetches_fail w"
  by (simp add: console_print_def)











text \<open>One failed fetch: the listing of that kind prints its notice and returns.\<close>

lemma lister_returns_on_failed_fetch:
  assumes "\<not> truthy (fetched (net w (length (requests w)) (api_url c (endpoint_of k))))"
  shows "fst (lister k c w) = Returned"
proof (cases k)
  case Categories
  with assms show ?thesis
    by (simp add: list_asset_types_def Let_def case_prod_beta fst_get_api_data)
next
  case Models
  with assms show ?thesis
    by (simp add: list_models_def Let_def case_prod_beta fst_get_api_data)
next
  case Fields
  with assms show ?thesis
    by (simp add: list_custom_fields_def Let_def case_prod_beta fst_get_api_data)
next
  case StatusLabels
  with assms show ?thesis
    by (simp add: list_status_labels_def Let_def case_prod_beta fst_get_api_data)
next
  case Companies
  with assms show ?thesis
    by (simp add: list_companies_def Let_def case_prod_beta fst_get_api_data)
next
  case Locations
  with assms show ?thesis
    by (simp add: list_locations_def Let_def case_prod_beta fst_get_api_data)
next
  case Departments
  with assms show ?thesis
    by (simp add: list_departments_def Let_def case_prod_beta fst_get_api_data)
next
  case Suppliers
  with assms show ?thesis
    by (simp add: list_suppliers_def Let_def case_prod_beta fst_get_api_data)
next
  case Manufacturers
  with assms show ?thesis
    by (simp add: list_manufacturers_def Let_def case_prod_beta fst_get_api_data)
qed








subsection \<open>The listings after a successful fetch\<close>

text \<open>
  What each listing does when the fetch brings a non-empty dict whose \<^verbatim>\<open>rows\<close> (or the
  default for it) is a list, every shown record gives a row and the console accepts the
  cells: one request, the heading, the overflow notice where the listing has one, and the
  table.
\<close>

lemma list_asset_types_ok:
  assumes "net w (length (requests w)) (api_url c (lit ''categories'')) =
             Response 200 (Inr (JObj kvs))"
    and "kvs \<noteq> []"
    and "(case map_of kvs (lit ''rows'') of None \<Rightarrow> JArr [] | Some v \<Rightarrow> v) =
           JArr rs"
    and "for_rows category_row rs = Inr trs"
    and "\<not> list_ex (list_ex (markup_error w)) trs"
  shows "list_asset_types c w =
    (Returned,
     w\<lparr>requests := requests w @ [api_url c (lit ''categories'')],
       console := console w @
         [Print (10 # lit ''[bold cyan]'' @ 0x1F4CB # lit '' Asset Types[/bold cyan]'')] @
         [PrintTable
            \<lparr>title = lit ''Asset Categories'',
              columns = [lit ''ID'', lit ''Name'', lit ''Type'', lit ''Asset Count''],
              rows = trs\<rparr>]\<rparr>)"
proof -
  let ?w1 = "console_print (10 # lit ''[bold cyan]'' @ 0x1F4CB # lit '' Asset Types[/bold cyan]'') w"
  from assms(1) have "get_api_data c (lit ''categories'') ?w1 =
      (JObj kvs, ?w1\<lparr>requests := requests ?w1 @ [api_url c (lit ''categories'')]\<rparr>)"
    by (intro get_api_data_ok) simp
  with assms(2-5) show ?thesis
    by (simp add: list_asset_types_def Let_def bind_exn_def print_table_def console_print_def emit_def)
qed

lemma list_models_ok:
  assumes "net w (length (requests w)) (api_url c (lit ''models'')) =
             Response 200 (Inr (JObj kvs))"
    and "kvs \<noteq> []"
    and "(case map_of kvs (lit ''rows'') of None \<Rightarrow> JArr [] | Some v \<Rightarrow> v) =
           JArr rs"
    and "for_rows model_row (take 20 rs) = Inr trs"
    and "\<not> list_ex (list_ex (markup_error w)) trs"
  shows "list_models c w =
    (Returned,
     w\<lparr>requests := requests w @ [api_url c (lit ''models'')],
       console := console w @
         [Print (10 # lit ''[bold cyan]'' @ 0x1F527 # lit '' Models[/bold cyan]'')] @
         (if length rs > 20
          then [Print (lit ''[yellow]... and '' @ str_int (int (length rs) - 20) @
                       lit '' other models[/yellow]'')]
          else []) @
         [PrintTable
            \<lparr>title = lit ''Asset Models'',
              columns = [lit ''ID'', lit ''Name'', lit ''Category'', lit ''Manufacturer'', lit ''Asset Count''],
              rows = trs\<rparr>]\<rparr>)"
proof -
  let ?w1 = "console_print (10 # lit ''[bold cyan]'' @ 0x1F527 # lit '' Models[/bold cyan]'') w"
  from assms(1) have "get_api_data c (lit ''models'') ?w1 =
      (JObj kvs, ?w1\<lparr>requests := requests ?w1 @ [api_url c (lit ''models'')]\<rparr>)"
    by (intro get_api_data_ok) simp
  with assms(2-5) show ?thesis
    by (simp add: list_models_def Let_def bind_exn_def print_table_def console_print_def emit_def)
qed

lemma list_custom_fields_ok:
  assumes "net w (length (requests w)) (api_url c (lit ''fields'')) =
             Response 200 (Inr (JObj kvs))"
    and "kvs \<noteq> []"
    and "(case map_of kvs (lit ''rows'') of None \<Rightarrow> JArr [] | Some v \<Rightarrow> v) =
           JArr rs"
    and "for_rows field_row rs = Inr trs"
    and "\<not> list_ex (list_ex (markup_error w)) trs"
  shows "list_custom_fields c w =
    (Returned,
     w\<lparr>requests := requests w @ [api_url c (lit ''fields'')],
       console := console w @
         [Print (10 # lit ''[bold cyan]'' @ 0x1F3F7 # 0xFE0F # lit '' Custom Fields[/bold cyan]'')] @
         [PrintTable
            \<lparr>title = lit ''Custom Fields'',
              columns = [lit ''ID'', lit ''Name'', lit ''Type'', lit ''Format'', lit ''Required'', lit ''Elements''],
              rows = trs\<rparr>]\<rparr>)"
proof -
  let ?w1 = "console_print (10 # lit ''[bold cyan]'' @ 0x1F3F7 # 0xFE0F # lit '' Custom Fields[/bold cyan]'') w"
  from assms(1) have "get_api_data c (lit ''fields'') ?w1 =
      (JObj kvs, ?w1\<lparr>requests := requests ?w1 @ [api_url c (lit ''fields'')]\<rparr>)"
    by (intro get_api_data_ok) simp
  with assms(2-5) show ?thesis
    by (simp add: list_custom_fields_def Let_def bind_exn_def print_table_def console_print_def emit_def)
qed

lemma list_status_labels_ok:
  assumes "net w (length (requests w)) (api_url c (lit ''statuslabels'')) =
             Response 200 (Inr (JObj kvs))"
    and "kvs \<noteq> []"
    and "(case map_of kvs (lit ''rows'') of None \<Rightarrow> JArr [] | Some v \<Rightarrow> v) =
           JArr rs"
    and "for_rows status_row rs = Inr trs"
    and "\<not> list_ex (list_ex (markup_error w)) trs"
  shows "list_status_labels c w =
    (Returned,
     w\<lparr>requests := requests w @ [api_url c (lit ''statuslabels'')],
       console := console w @
         [Print (10 # lit ''[bold cyan]'' @ 0x1F3F7 # 0xFE0F # lit '' Status Labels[/bold cyan]'')] @
         [PrintTable
            \<lparr>title = lit ''Status Labels'',
              columns = [lit ''ID'', lit ''Name'', lit ''Type'', lit ''Color'', lit ''Pivot''],
              rows = trs\<rparr>]\<rparr>)"
proof -
  let ?w1 = "console_print (10 # lit ''[bold cyan]'' @ 0x1F3F7 # 0xFE0F # lit '' Status Labels[/bold cyan]'') w"
  from assms(1) have "get_api_data c (lit ''statuslabels'') ?w1 =
      (JObj kvs, ?w1\<lparr>requests := requests ?w1 @ [api_url c (lit ''statuslabels'')]\<rparr>)"
    by (intro get_api_data_ok) simp
  with assms(2-5) show ?thesis
    by (simp add: list_status_labels_def Let_def bind_exn_def print_table_def console_print_def emit_def)
qed

lemma list_companies_ok:
  assumes "net w (length (requests w)) (api_url c (lit ''companies'')) =
             Response 200 (Inr (JObj kvs))"
    and "kvs \<noteq> []"
    and "(case map_of kvs (lit ''rows'') of None \<Rightarrow> JArr [] | Some v \<Rightarrow> v) =
           JArr rs"
    and "for_rows company_row (take 15 rs) = Inr trs"
    and "\<not> list_ex (list_ex (markup_error w)) trs"
  shows "list_companies c w =
    (Returned,
     w\<lparr>requests := requests w @ [api_url c (lit ''companies'')],
       console := console w @
         [Print (10 # lit ''[bold cyan]'' @ 0x1F3E2 # lit '' Companies[/bold cyan]'')] @
         (if length rs > 15
          then [Print (lit ''[yellow]... and '' @ str_int (int (length rs) - 15) @
                       lit '' other companies[/yellow]'')]
          else []) @
         [PrintTable
            \<lparr>title = lit ''Companies'',
              columns = [lit ''ID'', lit ''Name'', lit ''Assets'', lit ''Licenses'', lit ''Accessories''],
              rows = trs\<rparr>]\<rparr>)"
proof -
  let ?w1 = "console_print (10 # lit ''[bold cyan]'' @ 0x1F3E2 # lit '' Companies[/bold cyan]'') w"
  from assms(1) have "get_api_data c (lit ''companies'') ?w1 =
      (JObj kvs, ?w1\<lparr>requests := requests ?w1 @ [api_url c (lit ''companies'')]\<rparr>)"
    by (intro get_api_data_ok) simp
  with assms(2-5) show ?thesis
    by (simp add: list_companies_def Let_def bind_exn_def print_table_def console_print_def emit_def)
qed

lemma list_locations_ok:
  assumes "net w (length (requests w)) (api_url c (lit ''locations'')) =
             Response 200 (Inr (JObj kvs))"
    and "kvs \<noteq> []"
    and "(case map_of kvs (lit ''rows'') of None \<Rightarrow> JArr [] | Some v \<Rightarrow> v) =
           JArr rs"
    and "for_rows location_row (take 15 rs) = Inr trs"
    and "\<not> list_ex (list_ex (markup_error w)) trs"
  shows "list_locations c w =
    (Returned,
     w\<lparr>requests := requests w @ [api_url c (lit ''locations'')],
       console := console w @
         [Print (10 # lit ''[bold cyan]'' @ 0x1F4CD # lit '' Locations[/bold cyan]'')] @
         (if length rs > 15
          then [Print (lit ''[yellow]... and '' @ str_int (int (length rs) - 15) @
                       lit '' other locations[/yellow]'')]
          else []) @
         [PrintTable
            \<lparr>title = lit ''Locations'',
              columns = [lit ''ID'', lit ''Name'', lit ''Parent'', lit ''Assets'', lit ''Address''],
              rows = trs\<rparr>]\<rparr>)"
proof -
  let ?w1 = "console_print (10 # lit ''[bold cyan]'' @ 0x1F4CD # lit '' Locations[/bold cyan]'') w"
  from assms(1) have "get_api_data c (lit ''locations'') ?w1 =
      (JObj kvs, ?w1\<lparr>requests := requests ?w1 @ [api_url c (lit ''locations'')]\<rparr>)"
    by (intro get_api_data_ok) simp
  with assms(2-5) show ?thesis
    by (simp add: list_locations_def Let_def bind_exn_def print_table_def console_print_def emit_def)
qed

lemma list_departments_ok:
  assumes "net w (length (requests w)) (api_url c (lit ''departments'')) =
             Response 200 (Inr (JObj kvs))"
    and "kvs \<noteq> []"
    and "(case map_of kvs (lit ''rows'') of None \<Rightarrow> JArr [] | Some v \<Rightarrow> v) =
           JArr rs"
    and "for_rows department_row (take 15 rs) = Inr trs"
    and "\<not> list_ex (list_ex (markup_error w)) trs"
  shows "list_departments c w =
    (Returned,
     w\<lparr>requests := requests w @ [api_url c (lit ''departments'')],
       console := console w @
         [Print (10 # lit ''[bold cyan]'' @ 0x1F3E2 # lit '' Departments[/bold cyan]'')] @
         (if length rs > 15
          then [Print (lit ''[yellow]... and '' @ str_int (int (length rs) - 15) @
                       lit '' other departments[/yellow]'')]
          else []) @
         [PrintTable
            \<lparr>title = lit ''Departments'',
              columns = [lit ''ID'', lit ''Name'', lit ''Company'', lit ''Manager'', lit ''Users''],
              rows = trs\<rparr>]\<rparr>)"
proof -
  let ?w1 = "console_print (10 # lit ''[bold cyan]'' @ 0x1F3E2 # lit '' Departments[/bold cyan]'') w"
  from assms(1) have "get_api_data c (lit ''departments'') ?w1 =
      (JObj kvs, ?w1\<lparr>requests := requests ?w1 @ [api_url c (lit ''departments'')]\<rparr>)"
    by (intro get_api_data_ok) simp
  with assms(2-5) show ?thesis
    by (simp add: list_departments_def Let_def bind_exn_def print_table_def console_print_def emit_def)
qed

lemma list_suppliers_ok:
  assumes "net w (length (requests w)) (api_url c (lit ''suppliers'')) =
             Response 200 (Inr (JObj kvs))"
    and "kvs \<noteq> []"
    and "(case map_of kvs (lit ''rows'') of None \<Rightarrow> JArr [] | Some v \<Rightarrow> v) =
           JArr rs"
    and "for_rows supplier_row (take 15 rs) = Inr trs"
    and "\<not> list_ex (list_ex (markup_error w)) trs"
  shows "list_suppliers c w =
    (Returned,
     w\<lparr>requests := requests w @ [api_url c (lit ''suppliers'')],
       console := console w @
         [Print (10 # lit ''[bold cyan]'' @ 0x1F3EA # lit '' Suppliers[/bold cyan]'')] @
         (if length rs > 15
          then [Print (lit ''[yellow]... and '' @ str_int (int (length rs) - 15) @
                       lit '' other suppliers[/yellow]'')]
          else []) @
         [PrintTable
            \<lparr>title = lit ''Suppliers'',
              columns = [lit ''ID'', lit ''Name'', lit ''Contact'', lit ''Email'', lit ''Phone''],
              rows = trs\<rparr>]\<rparr>)"
proof -
  let ?w1 = "console_print (10 # lit ''[bold cyan]'' @ 0x1F3EA # lit '' Suppliers[/bold cyan]'') w"
  from assms(1) have "get_api_data c (lit ''suppliers'') ?w1 =
      (JObj kvs, ?w1\<lparr>requests := requests ?w1 @ [api_url c (lit ''suppliers'')]\<rparr>)"
    by (intro get_api_data_ok) simp
  with assms(2-5) show ?thesis
    by (simp add: list_suppliers_def Let_def bind_exn_def print_table_def console_print_def emit_def)
qed

lemma list_manufacturers_ok:
  assumes "net w (length (requests w)) (api_url c (lit ''manufacturers'')) =
             Response 200 (Inr (JObj kvs))"
    and "kvs \<noteq> []"
    and "(case map_of kvs (lit ''rows'') of None \<Rightarrow> JArr [] | Some v \<Rightarrow> v) =
           JArr rs"
    and "for_rows manufacturer_row (take 15 rs) = Inr trs"
    and "\<not> list_ex (list_ex (markup_error w)) trs"
  shows "list_manufacturers c w =
    (Returned,
     w\<lparr>requests := requests w @ [api_url c (lit ''manufacturers'')],
       console := console w @
         [Print (10 # lit ''[bold cyan]'' @ 0x1F3ED # lit '' Manufacturers[/bold cyan]'')] @
         (if length rs > 15
          then [Print (lit ''[yellow]... and '' @ str_int (int (length rs) - 15) @
                       lit '' other manufacturers[/yellow]'')]
          else []) @
         [PrintTable
            \<lparr>title = lit ''Manufacturers'',
              columns = [lit ''ID'', lit ''Name'', lit ''URL'', lit ''Support Email'', lit ''Support Phone''],
              rows = trs\<rparr>]\<rparr>)"
proof -
  let ?w1 = "console_print (10 # lit ''[bold cyan]'' @ 0x1F3ED # lit '' Manufacturers[/bold cyan]'') w"
  from assms(1) have "get_api_data c (lit ''manufacturers'') ?w1 =
      (JObj kvs, ?w1\<lparr>requests := requests ?w1 @ [api_url c (lit ''manufacturers'')]\<rparr>)"
    by (intro get_api_data_ok) simp
  with assms(2-5) show ?thesis
    by (simp add: list_manufacturers_def Let_def bind_exn_def print_table_def console_print_def emit_def)
qed

text \<open>The row loop gives one row per record, or stops at the first record that raises.\<close>

lemma for_rows_total:
  "(\<forall>x\<in>set xs. \<exists>cells. f x = Inr cells) \<Longrightarrow> \<exists>trs. for_rows f xs = Inr trs"
  by (induction xs) (auto simp add: bind_exn_def)

lemma for_rows_length: "for_rows f xs = Inr trs \<Longrightarrow> length trs = length xs"
  by (induction xs arbitrary: trs) (auto simp add: bind_exn_def split: sum.splits)

lemma for_rows_accepted:
  "(\<forall>x\<in>set xs. \<exists>cells. f x = Inr cells \<and> (\<forall>cell\<in>set cells. \<not> m cell)) \<Longrightarrow>
   \<exists>trs. for_rows f xs = Inr trs \<and> \<not> list_ex (list_ex m) trs"
  by (induction xs) (auto simp add: bind_exn_def list_ex_iff)

lemma for_rows_replicate:
  "f x = Inr cells \<Longrightarrow> for_rows f (replicate n x) = Inr (replicate n cells)"
  by (induction n) (simp_all add: bind_exn_def)

text \<open>
  The same with the heading and the table left open, and the notice written as the
  overflow notice of the kind.
\<close>

lemma list_asset_types_shape:
  assumes "net w (length (requests w)) (api_url c (lit ''categories'')) =
             Response 200 (Inr (JObj kvs))"
    and "map_of kvs (lit ''rows'') = Some (JArr rs)"
    and "\<forall>r\<in>set rs.
           \<exists>cells. category_row r = Inr cells \<and> (\<forall>cell\<in>set cells. \<not> markup_error w cell)"
  shows "\<exists>h t. list_asset_types c w =
    (Returned,
     w\<lparr>requests := requests w @ [api_url c (lit ''categories'')],
       console := console w @
         [Print h] @
         [PrintTable t]\<rparr>) \<and>
    for_rows category_row rs = Inr (rows t) \<and>
    length (rows t) = length rs"
proof -
  from for_rows_accepted [OF assms(3)] obtain trs
    where trs: "for_rows category_row rs = Inr trs"
      and acc: "\<not> list_ex (list_ex (markup_error w)) trs"
    by blast
  from for_rows_length [OF trs] have len: "length trs = length rs"
    by simp
  from assms(2) have ne: "kvs \<noteq> []"
    and rs: "(case map_of kvs (lit ''rows'') of None \<Rightarrow> JArr [] | Some v \<Rightarrow> v) =
        JArr rs"
    by auto
  show ?thesis
    apply (rule exI [of _ "10 # lit ''[bold cyan]'' @ 0x1F4CB # lit '' Asset Types[/bold cyan]''"])
    apply (rule exI [of _
      "\<lparr>title = lit ''Asset Categories'',
         columns = [lit ''ID'', lit ''Name'', lit ''Type'', lit ''Asset Count''],
         rows = trs\<rparr>"])
    using list_asset_types_ok [OF assms(1) ne rs trs acc] trs len
    by (simp add: overflow_notice_def lit_append of_nat_diff)
qed

lemma list_models_shape:
  assumes "net w (length (requests w)) (api_url c (lit ''models'')) =
             Response 200 (Inr (JObj kvs))"
    and "map_of kvs (lit ''rows'') = Some (JArr rs)"
    and "\<forall>r\<in>set (take 20 rs).
           \<exists>cells. model_row r = Inr cells \<and> (\<forall>cell\<in>set cells. \<not> markup_error w cell)"
  shows "\<exists>h t. list_models c w =
    (Returned,
     w\<lparr>requests := requests w @ [api_url c (lit ''models'')],
       console := console w @
         [Print h] @
         (if length rs > 20 then [Print (overflow_notice Models (length rs - 20))] else []) @
         [PrintTable t]\<rparr>) \<and>
    for_rows model_row (take 20 rs) = Inr (rows t) \<and>
    length (rows t) = min (length rs) 20"
proof -
  from for_rows_accepted [OF assms(3)] obtain trs
    where trs: "for_rows model_row (take 20 rs) = Inr trs"
      and acc: "\<not> list_ex (list_ex (markup_error w)) trs"
    by blast
  from for_rows_length [OF trs] have len: "length trs = min (length rs) 20"
    by simp
  from assms(2) have ne: "kvs \<noteq> []"
    and rs: "(case map_of kvs (lit ''rows'') of None \<Rightarrow> JArr [] | Some v \<Rightarrow> v) =
        JArr rs"
    by auto
  show ?thesis
    apply (rule exI [of _ "10 # lit ''[bold cyan]'' @ 0x1F527 # lit '' Models[/bold cyan]''"])
    apply (rule exI [of _
      "\<lparr>title = lit ''Asset Models'',
         columns = [lit ''ID'', lit ''Name'', lit ''Category'', lit ''Manufacturer'', lit ''Asset Count''],
         rows = trs\<rparr>"])
    using list_models_ok [OF assms(1) ne rs trs acc] trs len
    by (simp add: overflow_notice_def lit_append of_nat_diff)
qed

lemma list_custom_fields_shape:
  assumes "net w (length (requests w)) (api_url c (lit ''fields'')) =
             Response 200 (Inr (JObj kvs))"
    and "map_of kvs (lit ''rows'') = Some (JArr rs)"
    and "\<forall>r\<in>set rs.
           \<exists>cells. field_row r = Inr cells \<and> (\<forall>cell\<in>set cells. \<not> markup_error w cell)"
  shows "\<exists>h t. list_custom_fields c w =
    (Returned,
     w\<lparr>requests := requests w @ [api_url c (lit ''fields'')],
       console := console w @
         [Print h] @
         [PrintTable t]\<rparr>) \<and>
    for_rows field_row rs = Inr (rows t) \<and>
    length (rows t) = length rs"
proof -
  from for_rows_accepted [OF assms(3)] obtain trs
    where trs: "for_rows field_row rs = Inr trs"
      and acc: "\<not> list_ex (list_ex (markup_error w)) trs"
    by blast
  from for_rows_length [OF trs] have len: "length trs = length rs"
    by simp
  from assms(2) have ne: "kvs \<noteq> []"
    and rs: "(case map_of kvs (lit ''rows'') of None \<Rightarrow> JArr [] | Some v \<Rightarrow> v) =
        JArr rs"
    by auto
  show ?thesis
    apply (rule exI [of _ "10 # lit ''[bold cyan]'' @ 0x1F3F7 # 0xFE0F # lit '' Custom Fields[/bold cyan]''"])
    apply (rule exI [of _
      "\<lparr>title = lit ''Custom Fields'',
         columns = [lit ''ID'', lit ''Name'', lit ''Type'', lit ''Format'', lit ''Required'', lit ''Elements''],
         rows = trs\<rparr>"])
    using list_custom_fields_ok [OF assms(1) ne rs trs acc] trs len
    by (simp add: overflow_notice_def lit_append of_nat_diff)
qed

lemma list_status_labels_shape:
  assumes "net w (length (requests w)) (api_url c (lit ''statuslabels'')) =
             Response 200 (Inr (JObj kvs))"
    and "map_of kvs (lit ''rows'') = Some (JArr rs)"
    and "\<forall>r\<in>set rs.
           \<exists>cells. status_row r = Inr cells \<and> (\<forall>cell\<in>set cells. \<not> markup_error w cell)"
  shows "\<exists>h t. list_status_labels c w =
    (Returned,
     w\<lparr>requests := requests w @ [api_url c (lit ''statuslabels'')],
       console := console w @
         [Print h] @
         [PrintTable t]\<rparr>) \<and>
    for_rows status_row rs = Inr (rows t) \<and>
    length (rows t) = length rs"
proof -
  from for_rows_accepted [OF assms(3)] obtain trs
    where trs: "for_rows status_row rs = Inr trs"
      and acc: "\<not> list_ex (list_ex (markup_error w)) trs"
    by blast
  from for_rows_length [OF trs] have len: "length trs = length rs"
    by simp
  from assms(2) have ne: "kvs \<noteq> []"
    and rs: "(case map_of kvs (lit ''rows'') of None \<Rightarrow> JArr [] | Some v \<Rightarrow> v) =
        JArr rs"
    by auto
  show ?thesis
    apply (rule exI [of _ "10 # lit ''[bold cyan]'' @ 0x1F3F7 # 0xFE0F # lit '' Status Labels[/bold cyan]''"])
    apply (rule exI [of _
      "\<lparr>title = lit ''Status Labels'',
         columns = [lit ''ID'', lit ''Name'', lit ''Type'', lit ''Color'', lit ''Pivot''],
         rows = trs\<rparr>"])
    using list_status_labels_ok [OF assms(1) ne rs trs acc] trs len
    by (simp add: overflow_notice_def lit_append of_nat_diff)
qed

lemma list_companies_shape:
  assumes "net w (length (requests w)) (api_url c (lit ''companies'')) =
             Response 200 (Inr (JObj kvs))"
    and "map_of kvs (lit ''rows'') = Some (JArr rs)"
    and "\<forall>r\<in>set (take 15 rs).
           \<exists>cells. company_row r = Inr cells \<and> (\<forall>cell\<in>set cells. \<not> markup_error w cell)"
  shows "\<exists>h t. list_companies c w =
    (Returned,
     w\<lparr>requests := requests w @ [api_url c (lit ''companies'')],
       console := console w @
         [Print h] @
         (if length rs > 15 then [Print (overflow_notice Companies (length rs - 15))] else []) @
         [PrintTable t]\<rparr>) \<and>
    for_rows company_row (take 15 rs) = Inr (rows t) \<and>
    length (rows t) = min (length rs) 15"
proof -
  from for_rows_accepted [OF assms(3)] obtain trs
    where trs: "for_rows company_row (take 15 rs) = Inr trs"
      and acc: "\<not> list_ex (list_ex (markup_error w)) trs"
    by blast
  from for_rows_length [OF trs] have len: "length trs = min (length rs) 15"
    by simp
  from assms(2) have ne: "kvs \<noteq> []"
    and rs: "(case map_of kvs (lit ''rows'') of None \<Rightarrow> JArr [] | Some v \<Rightarrow> v) =
        JArr rs"
    by auto
  show ?thesis
    apply (rule exI [of _ "10 # lit ''[bold cyan]'' @ 0x1F3E2 # lit '' Companies[/bold cyan]''"])
    apply (rule exI [of _
      "\<lparr>title = lit ''Companies'',
         columns = [lit ''ID'', lit ''Name'', lit ''Assets'', lit ''Licenses'', lit ''Accessories''],
         rows = trs\<rparr>"])
    using list_companies_ok [OF assms(1) ne rs trs acc] trs len
    by (simp add: overflow_notice_def lit_append of_nat_diff)
qed

lemma list_locations_shape:
  assumes "net w (length (requests w)) (api_url c (lit ''locations'')) =
             Response 200 (Inr (JObj kvs))"
    and "map_of kvs (lit ''rows'') = Some (JArr rs)"
    and "\<forall>r\<in>set (take 15 rs).
           \<exists>cells. location_row r = Inr cells \<and> (\<forall>cell\<in>set cells. \<not> markup_error w cell)"
  shows "\<exists>h t. list_locations c w =
    (Returned,
     w\<lparr>requests := requests w @ [api_url c (lit ''locations'')],
       console := console w @
         [Print h] @
         (if length rs > 15 then [Print (overflow_notice Locations (length rs - 15))] else []) @
         [PrintTable t]\<rparr>) \<and>
    for_rows location_row (take 15 rs) = Inr (rows t) \<and>
    length (rows t) = min (length rs) 15"
proof -
  from for_rows_accepted [OF assms(3)] obtain trs
    where trs: "for_rows location_row (take 15 rs) = Inr trs"
      and acc: "\<not> list_ex (list_ex (markup_error w)) trs"
    by blast
  from for_rows_length [OF trs] have len: "length trs = min (length rs) 15"
    by simp
  from assms(2) have ne: "kvs \<noteq> []"
    and rs: "(case map_of kvs (lit ''rows'') of None \<Rightarrow> JArr [] | Some v \<Rightarrow> v) =
        JArr rs"
    by auto
  show ?thesis
    apply (rule exI [of _ "10 # lit ''[bold cyan]'' @ 0x1F4CD # lit '' Locations[/bold cyan]''"])
    apply (rule exI [of _
      "\<lparr>title = lit ''Locations'',
         columns = [lit ''ID'', lit ''Name'', lit ''Parent'', lit ''Assets'', lit ''Address''],
         rows = trs\<rparr>"])
    using list_locations_ok [OF assms(1) ne rs trs acc] trs len
    by (simp add: overflow_notice_def lit_append of_nat_diff)
qed

lemma list_departments_shape:
  assumes "net w (length (requests w)) (api_url c (lit ''departments'')) =
             Response 200 (Inr (JObj kvs))"
    and "map_of kvs (lit ''rows'') = Some (JArr rs)"
    and "\<forall>r\<in>set (take 15 rs).
           \<exists>cells. department_row r = Inr cells \<and> (\<forall>cell\<in>set cells. \<not> markup_error w cell)"
  shows "\<exists>h t. list_departments c w =
    (Returned,
     w\<lparr>requests := requests w @ [api_url c (lit ''departments'')],
       console := console w @
         [Print h] @
         (if length rs > 15 then [Print (overflow_notice Departments (length rs - 15))] else []) @
         [PrintTable t]\<rparr>) \<and>
    for_rows department_row (take 15 rs) = Inr (rows t) \<and>
    length (rows t) = min (length rs) 15"
proof -
  from for_rows_accepted [OF assms(3)] obtain trs
    where trs: "for_rows department_row (take 15 rs) = Inr trs"
      and acc: "\<not> list_ex (list_ex (markup_error w)) trs"
    by blast
  from for_rows_length [OF trs] have len: "length trs = min (length rs) 15"
    by simp
  from assms(2) have ne: "kvs \<noteq> []"
    and rs: "(case map_of kvs (lit ''rows'') of None \<Rightarrow> JArr [] | Some v \<Rightarrow> v) =
        JArr rs"
    by auto
  show ?thesis
    apply (rule exI [of _ "10 # lit ''[bold cyan]'' @ 0x1F3E2 # lit '' Departments[/bold cyan]''"])
    apply (rule exI [of _
      "\<lparr>title = lit ''Departments'',
         columns = [lit ''ID'', lit ''Name'', lit ''Company'', lit ''Manager'', lit ''Users''],
         rows = trs\<rparr>"])
    using list_departments_ok [OF assms(1) ne rs trs acc] trs len
    by (simp add: overflow_notice_def lit_append of_nat_diff)
qed

lemma list_suppliers_shape:
  assumes "net w (length (requests w)) (api_url c (lit ''suppliers'')) =
             Response 200 (Inr (JObj kvs))"
    and "map_of kvs (lit ''rows'') = Some (JArr rs)"
    and "\<forall>r\<in>set (take 15 rs).
           \<exists>cells. supplier_row r = Inr cells \<and> (\<forall>cell\<in>set cells. \<not> markup_error w cell)"
  shows "\<exists>h t. list_suppliers c w =
    (Returned,
     w\<lparr>requests := requests w @ [api_url c (lit ''suppliers'')],
       console := console w @
         [Print h] @
         (if length rs > 15 then [Print (overflow_notice Suppliers (length rs - 15))] else []) @
         [PrintTable t]\<rparr>) \<and>
    for_rows supplier_row (take 15 rs) = Inr (rows t) \<and>
    length (rows t) = min (length rs) 15"
proof -
  from for_rows_accepted [OF assms(3)] obtain trs
    where trs: "for_rows supplier_row (take 15 rs) = Inr trs"
      and acc: "\<not> list_ex (list_ex (markup_error w)) trs"
    by blast
  from for_rows_length [OF trs] have len: "length trs = min (length rs) 15"
    by simp
  from assms(2) have ne: "kvs \<noteq> []"
    and rs: "(case map_of kvs (lit ''rows'') of None \<Rightarrow> JArr [] | Some v \<Rightarrow> v) =
        JArr rs"
    by auto
  show ?thesis
    apply (rule exI [of _ "10 # lit ''[bold cyan]'' @ 0x1F3EA # lit '' Suppliers[/bold cyan]''"])
    apply (rule exI [of _
      "\<lparr>title = lit ''Suppliers'',
         columns = [lit ''ID'', lit ''Name'', lit ''Contact'', lit ''Email'', lit ''Phone''],
         rows = trs\<rparr>"])
    using list_suppliers_ok [OF assms(1) ne rs trs acc] trs len
    by (simp add: overflow_notice_def lit_append of_nat_diff)
qed

lemma list_manufacturers_shape:
  assumes "net w (length (requests w)) (api_url c (lit ''manufacturers'')) =
             Response 200 (Inr (JObj kvs))"
    and "map_of kvs (lit ''rows'') = Some (JArr rs)"
    and "\<forall>r\<in>set (take 15 rs).
           \<exists>cells. manufacturer_row r = Inr cells \<and> (\<forall>cell\<in>set cells. \<not> markup_error w cell)"
  shows "\<exists>h t. list_manufacturers c w =
    (Returned,
     w\<lparr>requests := requests w @ [api_url c (lit ''manufacturers'')],
       console := console w @
         [Print h] @
         (if length rs > 15 then [Print (overflow_notice Manufacturers (length rs - 15))] else []) @
         [PrintTable t]\<rparr>) \<and>
    for_rows manufacturer_row (take 15 rs) = Inr (rows t) \<and>
    length (rows t) = min (length rs) 15"
proof -
  from for_rows_accepted [OF assms(3)] obtain trs
    where trs: "for_rows manufacturer_row (take 15 rs) = Inr trs"
      and acc: "\<not> list_ex (list_ex (markup_error w)) trs"
    by blast
  from for_rows_length [OF trs] have len: "length trs = min (length rs) 15"
    by simp
  from assms(2) have ne: "kvs \<noteq> []"
    and rs: "(case map_of kvs (lit ''rows'') of None \<Rightarrow> JArr [] | Some v \<Rightarrow> v) =
        JArr rs"
    by auto
  show ?thesis
    apply (rule exI [of _ "10 # lit ''[bold cyan]'' @ 0x1F3ED # lit '' Manufacturers[/bold cyan]''"])
    apply (rule exI [of _
      "\<lparr>title = lit ''Manufacturers'',
         columns = [lit ''ID'', lit ''Name'', lit ''URL'', lit ''Support Email'', lit ''Support Phone''],
         rows = trs\<rparr>"])
    using list_manufacturers_ok [OF assms(1) ne rs trs acc] trs len
    by (simp add: overflow_notice_def lit_append of_nat_diff)
qed










subsection \<open>A response without rows\<close>




subsection \<open>Display caps\<close>

text \<open>\<^verbatim>\<open>str\<close> of a natural number is its decimal numeral.\<close>

lemma str_nat_decimal: "is_decimal (str_nat n) n"
proof (induction n rule: str_nat.induct)
  case (1 n)
  show ?case
  proof (cases "n < 10")
    case True
    then show ?thesis
      by (simp add: str_nat.simps [of n] is_decimal_def)
  next
    case False
    with 1 have ih: "is_decimal (str_nat (n div 10)) (n div 10)"
      by simp
    from False have pos: "n div 10 \<noteq> 0"
      by simp
    from ih pos have "hd (str_nat (n div 10)) \<noteq> 48"
      by (auto simp add: is_decimal_def)
    with ih False show ?thesis
      by (simp add: str_nat.simps [of n] is_decimal_def)
  qed
qed

lemma overflow_notice_decimal:
  "\<exists>ds. overflow_notice k d =
          lit ''[yellow]... and '' @ ds @ lit '' other '' @ endpoint_of k @ lit ''[/yellow]'' \<and>
        is_decimal ds d"
  using str_nat_decimal [of d] by (auto simp add: overflow_notice_def str_int_def)

text \<open>
  The row of a company is rendered when its name is a string or null; any other name
  makes \<^verbatim>\<open>add_row\<close> raise.
\<close>

lemma company_row_rendered:
  "map_of kvs (lit ''name'') = Some (JStr s) \<Longrightarrow>
   \<exists>t1 t3 t4 t5. company_row (JObj kvs) = Inr [t1, [Chars s], t3, t4, t5]"
  by (simp add: company_row_def bind_exn_def)

text \<open>
  C4, as amended. For each listing, with its cap \<open>C\<close> as the specification lists it,
  and a 200 response whose \<^verbatim>\<open>rows\<close> is a list of \<open>R\<close> records: if each of the
  first \<open>min R C\<close> records (all \<open>R\<close> when there is no cap) gives a row, without
  an exception of the row's expressions or of \<^verbatim>\<open>add_row\<close>, and the console accepts
  the cells of these rows, then the listing returns; it prints the heading, the overflow
  notice exactly when \<open>R > C\<close>, and the table, which holds the rows of the first
  \<open>min R C\<close> records. The notice is \<^verbatim>\<open>[yellow]... and N other KIND[/yellow]\<close>
  where \<open>N\<close> is the decimal numeral of \<open>R - C\<close>.
\<close>

theorem display_cap_rows:
  assumes "net w (length (requests w)) (api_url c (endpoint_of k)) = Response 200 (Inr (JObj kvs))"
    and "json_raises w (length (requests w)) (api_url c (endpoint_of k)) = None"
    and "map_of kvs (lit ''rows'') = Some (JArr rs)"
    and "\<forall>r\<in>set (case spec_display_cap k of None \<Rightarrow> rs | Some cap \<Rightarrow> take cap rs).
           \<exists>cells. row_of k r = Inr cells \<and> (\<forall>cell\<in>set cells. \<not> markup_error w cell)"
  shows "(\<exists>h t. lister k c w =
     (Returned, w\<lparr>requests := requests w @ [api_url c (endpoint_of k)],
                  console := console w @ [Print h] @
                    (case spec_display_cap k of
                       None \<Rightarrow> []
                     | Some cap \<Rightarrow>
                         if length rs > cap
                         then [Print (overflow_notice k (length rs - cap))] else []) @
                    [PrintTable t]\<rparr>) \<and>
     for_rows (row_of k)
       (case spec_display_cap k of None \<Rightarrow> rs | Some cap \<Rightarrow> take cap rs) = Inr (rows t) \<and>
     length (rows t) =
       (case spec_display_cap k of None \<Rightarrow> length rs | Some cap \<Rightarrow> min (length rs) cap)) \<and>
   (\<forall>d. \<exists>ds. overflow_notice k d =
            lit ''[yellow]... and '' @ ds @ lit '' other '' @ endpoint_of k @ lit ''[/yellow]'' \<and>
          is_decimal ds d)"
proof
  show "\<forall>d. \<exists>ds. overflow_notice k d =
            lit ''[yellow]... and '' @ ds @ lit '' other '' @ endpoint_of k @ lit ''[/yellow]'' \<and>
          is_decimal ds d"
    by (intro allI overflow_notice_decimal)
next
  note hyps = assms(1,3,4)
  show "\<exists>h t. lister k c w =
     (Returned, w\<lparr>requests := requests w @ [api_url c (endpoint_of k)],
                  console := console w @ [Print h] @
                    (case spec_display_cap k of
                       None \<Rightarrow> []
                     | Some cap \<Rightarrow>
                         if length rs > cap
                         then [Print (overflow_notice k (length rs - cap))] else []) @
                    [PrintTable t]\<rparr>) \<and>
     for_rows (row_of k)
       (case spec_display_cap k of None \<Rightarrow> rs | Some cap \<Rightarrow> take cap rs) = Inr (rows t) \<and>
     length (rows t) =
       (case spec_display_cap k of None \<Rightarrow> length rs | Some cap \<Rightarrow> min (length rs) cap)"
  proof (cases k)
    case Categories
    note a = hyps [unfolded Categories endpoint_of.simps row_of.simps spec_display_cap.simps option.case]
    show ?thesis
      unfolding Categories lister.simps endpoint_of.simps row_of.simps spec_display_cap.simps option.case
        append_Nil
      by (rule list_asset_types_shape [OF a])
  next
    case Models
    note a = hyps [unfolded Models endpoint_of.simps row_of.simps spec_display_cap.simps option.case]
    show ?thesis
      unfolding Models lister.simps endpoint_of.simps row_of.simps spec_display_cap.simps option.case
        append_Nil
      by (rule list_models_shape [OF a])
  next
    case Fields
    note a = hyps [unfolded Fields endpoint_of.simps row_of.simps spec_display_cap.simps option.case]
    show ?thesis
      unfolding Fields lister.simps endpoint_of.simps row_of.simps spec_display_cap.simps option.case
        append_Nil
      by (rule list_custom_fields_shape [OF a])
  next
    case StatusLabels
    note a = hyps [unfolded StatusLabels endpoint_of.simps row_of.simps spec_display_cap.simps option.case]
    show ?thesis
      unfolding StatusLabels lister.simps endpoint_of.simps row_of.simps spec_display_cap.simps option.case
        append_Nil
      by (rule list_status_labels_shape [OF a])
  next
    case Companies
    note a = hyps [unfolded Companies endpoint_of.simps row_of.simps spec_display_cap.simps option.case]
    show ?thesis
      unfolding Companies lister.simps endpoint_of.simps row_of.simps spec_display_cap.simps option.case
        append_Nil
      by (rule list_companies_shape [OF a])
  next
    case Locations
    note a = hyps [unfolded Locations endpoint_of.simps row_of.simps spec_display_cap.simps option.case]
    show ?thesis
      unfolding Locations lister.simps endpoint_of.simps row_of.simps spec_display_cap.simps option.case
        append_Nil
      by (rule list_locations_shape [OF a])
  next
    case Departments
    note a = hyps [unfolded Departments endpoint_of.simps row_of.simps spec_display_cap.simps option.case]
    show ?thesis
      unfolding Departments lister.simps endpoint_of.simps row_of.simps spec_display_cap.simps option.case
        append_Nil
      by (rule list_departments_shape [OF a])
  next
    case Suppliers
    note a = hyps [unfolded Suppliers endpoint_of.simps row_of.simps spec_display_cap.simps option.case]
    show ?thesis
      unfolding Suppliers lister.simps endpoint_of.simps row_of.simps spec_display_cap.simps option.case
        append_Nil
      by (rule list_suppliers_shape [OF a])
  next
    case Manufacturers
    note a = hyps [unfolded Manufacturers endpoint_of.simps row_of.simps spec_display_cap.simps option.case]
    show ?thesis
      unfolding Manufacturers lister.simps endpoint_of.simps row_of.simps spec_display_cap.simps option.case
        append_Nil
      by (rule list_manufacturers_shape [OF a])
  qed
qed

text \<open>
  Sixteen companies: fifteen rows are in the table, and the notice says that there is
  1 other.
\<close>

theorem display_cap_rows_witness:
  "\<exists>h t. lister Companies example_client (answering (Response 200 (Inr sixteen_companies))) =
     (Returned, (answering (Response 200 (Inr sixteen_companies)))
        \<lparr>requests := [api_url example_client (lit ''companies'')],
         console := [Print h, Print (lit ''[yellow]... and 1 other companies[/yellow]''),
                     PrintTable t]\<rparr>) \<and>
     rows t = replicate 15 [[Chars (lit ''7'')], [Chars (lit ''Acme'')], [Chars (lit ''0'')],
                            [Chars (lit ''0'')], [Chars (lit ''0'')]] \<and>
     length (rows t) = 15 \<and>
     is_decimal (lit ''1'') 1"
proof -
  let ?r = "JObj [(lit ''id'', JInt 7), (lit ''name'', JStr (lit ''Acme''))]"
  let ?rs = "replicate 16 ?r"
  let ?w = "answering (Response 200 (Inr sixteen_companies))"
  have row: "company_row ?r =
      Inr [[Chars (lit ''7'')], [Chars (lit ''Acme'')], [Chars (lit ''0'')],
           [Chars (lit ''0'')], [Chars (lit ''0'')]]"
    by (simp add: company_row_def bind_exn_def str_int_def str_nat.simps lit_def)
  have 1: "net ?w (length (requests ?w)) (api_url example_client (endpoint_of Companies)) =
           Response 200 (Inr (JObj [(lit ''total'', JInt 16), (lit ''rows'', JArr ?rs)]))"
    by (simp add: answering_def sixteen_companies_def)
  have 2: "json_raises ?w (length (requests ?w)) (api_url example_client (endpoint_of Companies)) =
           None"
    by (simp add: answering_def)
  have 3: "map_of [(lit ''total'', JInt 16), (lit ''rows'', JArr ?rs)] (lit ''rows'') =
           Some (JArr ?rs)"
    by simp
  have 4: "\<forall>r\<in>set (case spec_display_cap Companies of None \<Rightarrow> ?rs | Some cap \<Rightarrow> take cap ?rs).
             \<exists>cells. row_of Companies r = Inr cells \<and>
                     (\<forall>cell\<in>set cells. \<not> markup_error ?w cell)"
    by (simp add: row answering_def)
  have shown: "(case spec_display_cap Companies of None \<Rightarrow> ?rs | Some cap \<Rightarrow> take cap ?rs) =
      replicate 15 ?r"
    by simp
  have notice: "overflow_notice Companies (length ?rs - 15) =
      lit ''[yellow]... and 1 other companies[/yellow]''"
    by (simp add: overflow_notice_def str_int_def str_nat.simps lit_def)
  have one: "is_decimal (lit ''1'') 1"
    using str_nat_decimal [of 1] by (simp add: str_nat.simps lit_def)
  from display_cap_rows [OF 1 2 3 4] obtain h t where
    run: "lister Companies example_client ?w =
       (Returned, ?w\<lparr>requests := requests ?w @ [api_url example_client (endpoint_of Companies)],
          console := console ?w @ [Print h] @
            (case spec_display_cap Companies of
               None \<Rightarrow> []
             | Some cap \<Rightarrow>
                 if length ?rs > cap
                 then [Print (overflow_notice Companies (length ?rs - cap))] else []) @
            [PrintTable t]\<rparr>)"
    and rows: "for_rows (row_of Companies)
       (case spec_display_cap Companies of None \<Rightarrow> ?rs | Some cap \<Rightarrow> take cap ?rs) = Inr (rows t)"
    by blast
  from rows have table: "rows t = replicate 15 [[Chars (lit ''7'')], [Chars (lit ''Acme'')],
      [Chars (lit ''0'')], [Chars (lit ''0'')], [Chars (lit ''0'')]]"
    unfolding shown by (simp add: for_rows_replicate [where f = company_row, OF row])
  then have len: "length (rows t) = 15"
    by simp
  from run have printed: "lister Companies example_client ?w =
     (Returned, ?w
        \<lparr>requests := [api_url example_client (lit ''companies'')],
         console := [Print h, Print (lit ''[yellow]... and 1 other companies[/yellow]''),
                     PrintTable t]\<rparr>)"
    using notice by (simp add: answering_def)
  from printed table len one show ?thesis
    by blast
qed

text \<open>
  C4 as stated fails when a row cannot be rendered. The program does not validate what
  the server sends. For one company whose name is the number 5, \<^verbatim>\<open>add_row\<close> raises
  NotRenderableError; the listing ends with this exception after the heading, and no row
  and no table is rendered although \<open>min R C = 1\<close>. For one status label with the
  colour \<^verbatim>\<open>FF0000\<close> the Color cell is \<^verbatim>\<open>[FF0000]FF0000[/FF0000]\<close>, whose closing
  tag matches no open tag (\<^verbatim>\<open>[FF0000]\<close> is no tag for \<^verbatim>\<open>rich\<close>); the row is added,
  \<^verbatim>\<open>console.print(table)\<close> raises MarkupError, and no table is rendered.
\<close>

theorem rows_not_rendered:
  "company_row number_named_company = Inl NotRenderableError \<and>
   list_companies example_client
       (answering (Response 200 (Inr (JObj [(lit ''total'', JInt 1),
                                            (lit ''rows'', JArr [number_named_company])])))) =
     (Raised NotRenderableError,
      (answering (Response 200 (Inr (JObj [(lit ''total'', JInt 1),
                                           (lit ''rows'', JArr [number_named_company])]))))
        \<lparr>requests := [api_url example_client (lit ''companies'')],
         console := [Print (10 # lit ''[bold cyan]'' @ 0x1F3E2 # lit '' Companies[/bold cyan]'')]\<rparr>) \<and>
   map chars_of (projr (status_row red_status)) =
     [Some (lit ''3''), Some (lit ''Broken''), Some (lit ''undeployable''),
      Some (lit ''[FF0000]FF0000[/FF0000]''), Some (lit ''0'')] \<and>
   list_status_labels example_client
       (rejecting (lit ''[FF0000]FF0000[/FF0000]'')
          (answering (Response 200 (Inr (JObj [(lit ''total'', JInt 1),
                                               (lit ''rows'', JArr [red_status])]))))) =
     (Raised MarkupError,
      (rejecting (lit ''[FF0000]FF0000[/FF0000]'')
         (answering (Response 200 (Inr (JObj [(lit ''total'', JInt 1),
                                              (lit ''rows'', JArr [red_status])])))))
        \<lparr>requests := [api_url example_client (lit ''statuslabels'')],
         console := [Print (10 # lit ''[bold cyan]'' @ 0x1F3F7 # 0xFE0F #
                            lit '' Status Labels[/bold cyan]'')]\<rparr>)"
proof (intro conjI)
  show "company_row number_named_company = Inl NotRenderableError"
    by (simp add: company_row_def number_named_company_def bind_exn_def)
  show "list_companies example_client
       (answering (Response 200 (Inr (JObj [(lit ''total'', JInt 1),
                                            (lit ''rows'', JArr [number_named_company])])))) =
     (Raised NotRenderableError,
      (answering (Response 200 (Inr (JObj [(lit ''total'', JInt 1),
                                           (lit ''rows'', JArr [number_named_company])]))))
        \<lparr>requests := [api_url example_client (lit ''companies'')],
         console := [Print (10 # lit ''[bold cyan]'' @ 0x1F3E2 # lit '' Companies[/bold cyan]'')]\<rparr>)"
    by (simp add: list_companies_def company_row_def number_named_company_def bind_exn_def
        api_defs console_print_def emit_def answering_def)
  have row: "status_row red_status =
      Inr [[Chars (str_int 3)], [Chars (lit ''Broken'')], [Chars (lit ''undeployable'')],
           [Chars (lit ''[''), Chars (lit ''FF0000''), Chars (lit '']''), Chars (lit ''FF0000''),
            Chars (lit ''[/''), Chars (lit ''FF0000''), Chars (lit '']'')],
           [Chars (str_int 0)]]"
    by (simp add: status_row_def red_status_def color_display_def bind_exn_def)
  show "map chars_of (projr (status_row red_status)) =
     [Some (lit ''3''), Some (lit ''Broken''), Some (lit ''undeployable''),
      Some (lit ''[FF0000]FF0000[/FF0000]''), Some (lit ''0'')]"
    by (simp add: row str_int_def str_nat.simps lit_def)
  have rejected: "list_ex (list_ex (\<lambda>t. chars_of t = Some (lit ''[FF0000]FF0000[/FF0000]'')))
      [[[Chars (str_int 3)], [Chars (lit ''Broken'')], [Chars (lit ''undeployable'')],
        [Chars (lit ''[''), Chars (lit ''FF0000''), Chars (lit '']''), Chars (lit ''FF0000''),
         Chars (lit ''[/''), Chars (lit ''FF0000''), Chars (lit '']'')],
        [Chars (str_int 0)]]]"
    by (simp add: lit_def)
  show "list_status_labels example_client
       (rejecting (lit ''[FF0000]FF0000[/FF0000]'')
          (answering (Response 200 (Inr (JObj [(lit ''total'', JInt 1),
                                               (lit ''rows'', JArr [red_status])]))))) =
     (Raised MarkupError,
      (rejecting (lit ''[FF0000]FF0000[/FF0000]'')
         (answering (Response 200 (Inr (JObj [(lit ''total'', JInt 1),
                                              (lit ''rows'', JArr [red_status])])))))
        \<lparr>requests := [api_url example_client (lit ''statuslabels'')],
         console := [Print (10 # lit ''[bold cyan]'' @ 0x1F3F7 # 0xFE0F #
                            lit '' Status Labels[/bold cyan]'')]\<rparr>)"
    using rejected
    by (simp add: list_status_labels_def Let_def bind_exn_def row print_table_def api_defs
        console_print_def emit_def answering_def rejecting_def)
qed

subsection \<open>The exported document\<close>






subsection \<open>A run with --export only\<close>
























end
